theory Spec2Isabelle
  imports Complex_Main "HOL-Library.Multiset"
begin

section \<open>Values, errors and the library objects the pipeline stores\<close>

text \<open>
  The pipeline is Python over numpy, pandas and scikit-learn. Numbers are modelled as
  exact reals (no rounding, no NaN or infinity in the input); where the code itself
  produces NaN (a z-score over a zero or undefined standard deviation) the model makes
  that case explicit with \<open>option\<close>. Every exception of the source is a value of
  \<open>error\<close>; a function that can raise returns \<open>error + 'a\<close>, \<open>Inl\<close> the exception.
\<close>

datatype error =
    KeyError "string list"    \<comment> \<open>the key(s) the exception names\<close>
  | ValueError
  | AttributeError
  | NotFittedError
  | FileNotFoundError string
  | EOFError
  | IndexError

text \<open>A numpy 2-D array: the list of its rows.\<close>

type_synonym matrix = "real list list"

text \<open>
  sklearn's input validation of a 2-D array against an estimator fitted on
  \<open>n\<close> features: at least one sample, at least one feature, and the fitted number of
  features; each failure is a ValueError.
\<close>

definition check_array :: "nat \<Rightarrow> matrix \<Rightarrow> error + matrix" where
  "check_array n X =
     (if X = [] then Inl ValueError
      else if list_ex (\<lambda>row. length row = 0) X then Inl ValueError
      else if list_ex (\<lambda>row. length row \<noteq> n) X then Inl ValueError
      else Inr X)"

definition column :: "matrix \<Rightarrow> nat \<Rightarrow> real list" where
  "column X j = map (\<lambda>row. row ! j) X"

definition mean :: "real list \<Rightarrow> real" where
  "mean xs = sum_list xs / real (length xs)"

text \<open>The population variance (\<open>ddof = 0\<close>), as \<open>StandardScaler\<close> computes it.\<close>

definition var :: "real list \<Rightarrow> real" where
  "var xs = sum_list (map (\<lambda>x. (x - mean xs) ^ 2) xs) / real (length xs)"

text \<open>
  \<open>StandardScaler\<close>: unfitted, or fitted with the per-feature \<open>mean_\<close> and \<open>scale_\<close>.
  \<open>fit\<close> resets the scaler, validates the array and stores the column means and
  standard deviations, a zero deviation replaced by 1. \<open>transform\<close> subtracts the mean
  and divides by the scale, column by column.
\<close>

datatype StandardScaler = UnfittedScaler | FittedScaler (scaler_mean: "real list") (scaler_scale: "real list")

definition handle_zeros_in_scale :: "real \<Rightarrow> real" where
  "handle_zeros_in_scale s = (if s = 0 then 1 else s)"

definition StandardScaler_fit :: "matrix \<Rightarrow> error + StandardScaler" where
  "StandardScaler_fit X =
     (case check_array (length (hd X)) X of
        Inl e \<Rightarrow> Inl e
      | Inr X' \<Rightarrow>
          Inr (FittedScaler
                 (map (\<lambda>j. mean (column X' j)) [0..<length (hd X')])
                 (map (\<lambda>j. handle_zeros_in_scale (sqrt (var (column X' j)))) [0..<length (hd X')])))"

definition scale_row :: "real list \<Rightarrow> real list \<Rightarrow> real list \<Rightarrow> real list" where
  "scale_row ms ss row = map (\<lambda>(x, m, s). (x - m) / s) (zip row (zip ms ss))"

fun StandardScaler_transform :: "StandardScaler \<Rightarrow> matrix \<Rightarrow> error + matrix" where
  "StandardScaler_transform UnfittedScaler X = Inl NotFittedError"
| "StandardScaler_transform (FittedScaler ms ss) X =
     (case check_array (length ms) X of
        Inl e \<Rightarrow> Inl e
      | Inr X' \<Rightarrow> Inr (map (scale_row ms ss) X'))"

text \<open>
  \<open>LinearRegression\<close>: unfitted, or fitted with \<open>coef_\<close> and \<open>intercept_\<close>.
  \<open>predict\<close> is \<open>X @ coef_ + intercept_\<close>, one value per row.
\<close>

datatype LinearRegression = UnfittedModel | FittedModel (coef: "real list") (intercept: real)

definition dot :: "real list \<Rightarrow> real list \<Rightarrow> real" where
  "dot xs ys = sum_list (map (\<lambda>(x, y). x * y) (zip xs ys))"

text \<open>
  \<open>scipy.linalg.lstsq\<close>, which \<open>LinearRegression.fit\<close> calls on the centred data:
  the least-squares solution of minimum norm. It is specified here, not computed: that it
  exists and is unique for every finite system, also an underdetermined one, is proved
  in the section on fitting (\<open>lstsq_min_norm\<close>, \<open>lstsq_unique\<close>).
\<close>

definition sq_residual :: "matrix \<Rightarrow> real list \<Rightarrow> real list \<Rightarrow> real" where
  "sq_residual A b x = sum_list (map (\<lambda>(row, v). (dot row x - v) ^ 2) (zip A b))"

definition least_squares :: "matrix \<Rightarrow> real list \<Rightarrow> real list \<Rightarrow> bool" where
  "least_squares A b x =
     (length x = length (hd A) \<and>
      (\<forall>z. length z = length (hd A) \<longrightarrow> sq_residual A b x \<le> sq_residual A b z))"

definition lstsq :: "matrix \<Rightarrow> real list \<Rightarrow> real list" where
  "lstsq A b =
     (SOME x. least_squares A b x \<and> (\<forall>z. least_squares A b z \<longrightarrow> dot x x \<le> dot z z))"

text \<open>
  \<open>LinearRegression.fit\<close> validates the arrays, centres the columns of \<open>X\<close> and the
  targets on their means, solves the centred system with \<open>lstsq\<close> and sets the
  intercept to the target mean minus the column means times the coefficients.
\<close>

definition column_means :: "matrix \<Rightarrow> real list" where
  "column_means X = map (\<lambda>j. mean (column X j)) [0..<length (hd X)]"

definition centre_rows :: "matrix \<Rightarrow> matrix" where
  "centre_rows X = map (\<lambda>row. map (\<lambda>(x, m). x - m) (zip row (column_means X))) X"

definition centre :: "real list \<Rightarrow> real list" where
  "centre y = map (\<lambda>v. v - mean y) y"

definition LinearRegression_fit :: "matrix \<Rightarrow> real list \<Rightarrow> error + LinearRegression" where
  "LinearRegression_fit X y =
     (case check_array (length (hd X)) X of
        Inl e \<Rightarrow> Inl e
      | Inr X' \<Rightarrow>
          if length y \<noteq> length X' then Inl ValueError
          else
            let w = lstsq (centre_rows X') (centre y)
            in Inr (FittedModel w (mean y - dot (column_means X') w)))"

fun LinearRegression_predict :: "LinearRegression \<Rightarrow> matrix \<Rightarrow> error + real list" where
  "LinearRegression_predict UnfittedModel X = Inl NotFittedError"
| "LinearRegression_predict (FittedModel cs b) X =
     (case check_array (length cs) X of
        Inl e \<Rightarrow> Inl e
      | Inr X' \<Rightarrow> Inr (map (\<lambda>row. dot row cs + b) X'))"

section \<open>Data frames\<close>

text \<open>
  A pandas \<open>DataFrame\<close> of numeric columns: the columns in order, each with its name
  and its values. \<open>pd.DataFrame(dict)\<close> raises ValueError unless all columns have one
  length. A \<open>Series\<close> is the list of its values.
\<close>

type_synonym data_frame = "(string \<times> real list) list"

definition n_rows :: "data_frame \<Rightarrow> nat" where
  "n_rows d = (case d of [] \<Rightarrow> 0 | (_, col) # _ \<Rightarrow> length col)"

definition DataFrame :: "data_frame \<Rightarrow> error + data_frame" where
  "DataFrame d =
     (if list_all (\<lambda>(_, col). length col = n_rows d) d then Inr d else Inl ValueError)"

text \<open>\<open>frame[names].values\<close>: KeyError naming the absent columns, else the rows.\<close>

definition select_values :: "data_frame \<Rightarrow> string list \<Rightarrow> error + matrix" where
  "select_values d names =
     (case filter (\<lambda>f. map_of d f = None) names of
        [] \<Rightarrow> Inr (map (\<lambda>i. map (\<lambda>f. the (map_of d f) ! i) names) [0..<n_rows d])
      | missing \<Rightarrow> Inl (KeyError missing))"

definition frame_values :: "data_frame \<Rightarrow> matrix" where
  "frame_values d = map (\<lambda>i. map (\<lambda>(_, col). col ! i) d) [0..<n_rows d]"

text \<open>\<open>frame[mask]\<close> with a boolean mask: the rows where the mask is True.\<close>

definition boolean_index :: "bool list \<Rightarrow> data_frame \<Rightarrow> data_frame" where
  "boolean_index keep d = map (\<lambda>(k, col). (k, map snd (filter fst (zip keep col)))) d"

text \<open>\<open>frame.drop(name, axis=1)\<close>: KeyError when there is no such column.\<close>

definition drop_column :: "string \<Rightarrow> data_frame \<Rightarrow> error + data_frame" where
  "drop_column name d =
     (if map_of d name = None then Inl (KeyError [name])
      else Inr (filter (\<lambda>(k, _). k \<noteq> name) d))"

text \<open>Positional selection (\<open>iloc\<close>, \<open>take\<close>): IndexError out of bounds.\<close>

definition take_items :: "nat list \<Rightarrow> real list \<Rightarrow> error + real list" where
  "take_items idx xs =
     (if list_all (\<lambda>i. i < length xs) idx then Inr (map (\<lambda>i. xs ! i) idx) else Inl IndexError)"

definition iloc :: "nat list \<Rightarrow> data_frame \<Rightarrow> error + data_frame" where
  "iloc idx d =
     (if list_all (\<lambda>(_, col). list_all (\<lambda>i. i < length col) idx) d
      then Inr (map (\<lambda>(k, col). (k, map (\<lambda>i. col ! i) idx)) d)
      else Inl IndexError)"

text \<open>
  \<open>Series.mean()\<close> and \<open>Series.std()\<close> (sample deviation, \<open>ddof = 1\<close>): NaN, here
  \<open>None\<close>, on an empty series, and for the deviation on fewer than two values.
\<close>

definition series_mean :: "real list \<Rightarrow> real option" where
  "series_mean xs = (if xs = [] then None else Some (mean xs))"

definition series_std :: "real list \<Rightarrow> real option" where
  "series_std xs =
     (if length xs < 2 then None
      else Some (sqrt (sum_list (map (\<lambda>x. (x - mean xs) ^ 2) xs) / real (length xs - 1))))"

section \<open>data\_preprocessing.py: DataProcessor\<close>

text \<open>
  \<open>X_train\<close> and \<open>X_test\<close> are frames after the split and arrays after scaling.
  \<open>dp_scaler\<close> is the field \<open>scaler\<close> of the class.
\<close>

datatype table = Frame data_frame | Array matrix

definition table_values :: "table \<Rightarrow> matrix" where
  "table_values t = (case t of Frame d \<Rightarrow> frame_values d | Array m \<Rightarrow> m)"

record DataProcessor =
  filepath :: string
  df :: "data_frame option"
  X_train :: "table option"
  X_test :: "table option"
  y_train :: "real list option"
  y_test :: "real list option"
  dp_scaler :: StandardScaler

text \<open>
  \<open>remove_outliers\<close>. For each column in turn:
  \<open>z_scores = np.abs((df[col] - df[col].mean()) / df[col].std())\<close> and
  \<open>df = df[z_scores < threshold]\<close>. A z-score is NaN when the deviation is NaN or
  zero (then every value equals the mean and the quotient is 0/0), and a comparison
  with NaN is False.
\<close>

definition z_scores :: "real list \<Rightarrow> real option list" where
  "z_scores xs =
     (case (series_mean xs, series_std xs) of
        (Some m, Some s) \<Rightarrow> map (\<lambda>x. if s = 0 then None else Some \<bar>(x - m) / s\<bar>) xs
      | _ \<Rightarrow> map (\<lambda>x. None) xs)"

definition less_than :: "real \<Rightarrow> real option \<Rightarrow> bool" where
  "less_than threshold z = (case z of None \<Rightarrow> False | Some v \<Rightarrow> v < threshold)"

fun outlier_loop :: "real \<Rightarrow> string list \<Rightarrow> data_frame \<Rightarrow> data_frame \<times> error option" where
  "outlier_loop threshold [] d = (d, None)"
| "outlier_loop threshold (c # cs) d =
     (case map_of d c of
        None \<Rightarrow> (d, Some (KeyError [c]))
      | Some col \<Rightarrow>
          outlier_loop threshold cs
            (boolean_index (map (less_than threshold) (z_scores col)) d))"

text \<open>
  \<open>columns=None\<close> selects every numeric column of the frame, the target \<open>price\<close>
  among them. The frame reached so far is stored in \<open>df\<close> also when a later column
  raises.
\<close>

definition remove_outliers ::
  "DataProcessor \<Rightarrow> string list option \<Rightarrow> real \<Rightarrow> DataProcessor \<times> (error + data_frame)" where
  "remove_outliers p columns threshold =
     (case df p of
        None \<Rightarrow> (p, Inl AttributeError)
      | Some d \<Rightarrow>
          (case outlier_loop threshold (case columns of None \<Rightarrow> map fst d | Some cs \<Rightarrow> cs) d of
             (d', None) \<Rightarrow> (p\<lparr>df := Some d'\<rparr>, Inr d')
           | (d', Some e) \<Rightarrow> (p\<lparr>df := Some d'\<rparr>, Inl e)))"

text \<open>
  \<open>train_test_split(X, y, test_size, random_state)\<close> of sklearn, for a float
  \<open>test_size\<close> and an integer seed: \<open>n_test = ceil(test_size * n)\<close>,
  \<open>n_train = n - n_test\<close>, the test rows are the first \<open>n_test\<close> indices of the seeded
  permutation and the train rows the next \<open>n_train\<close>. The permutation numpy draws from
  a seed is the parameter \<open>permutation\<close>.
\<close>

definition train_test_split ::
  "(int \<Rightarrow> nat \<Rightarrow> nat list) \<Rightarrow> data_frame \<Rightarrow> real list \<Rightarrow> real \<Rightarrow> int \<Rightarrow>
   error + (data_frame \<times> data_frame \<times> real list \<times> real list)" where
  "train_test_split permutation X y test_size random_state =
     (let n = length y in
      if \<not> list_all (\<lambda>(_, col). length col = n) X then Inl ValueError
      else if \<not> (0 < test_size \<and> test_size < 1) then Inl ValueError
      else if n - nat \<lceil>test_size * real n\<rceil> = 0 then Inl ValueError
      else if random_state < 0 \<or> 2 ^ 32 \<le> random_state then Inl ValueError
      else
        let n_test = nat \<lceil>test_size * real n\<rceil>;
            n_train = n - n_test;
            perm = permutation random_state n;
            ind_test = take n_test perm;
            ind_train = take n_train (drop n_test perm)
        in (case (iloc ind_train X, iloc ind_test X, take_items ind_train y, take_items ind_test y) of
              (Inr Xtr, Inr Xte, Inr ytr, Inr yte) \<Rightarrow> Inr (Xtr, Xte, ytr, yte)
            | _ \<Rightarrow> Inl IndexError))"

definition prepare_train_test_split ::
  "(int \<Rightarrow> nat \<Rightarrow> nat list) \<Rightarrow> DataProcessor \<Rightarrow> real \<Rightarrow> int \<Rightarrow>
   DataProcessor \<times> (error + (data_frame \<times> data_frame \<times> real list \<times> real list))" where
  "prepare_train_test_split permutation p test_size random_state =
     (case df p of
        None \<Rightarrow> (p, Inl AttributeError)
      | Some d \<Rightarrow>
          (case drop_column ''price'' d of
             Inl e \<Rightarrow> (p, Inl e)
           | Inr X \<Rightarrow>
               (case train_test_split permutation X (the (map_of d ''price'')) test_size random_state of
                  Inl e \<Rightarrow> (p, Inl e)
                | Inr (Xtr, Xte, ytr, yte) \<Rightarrow>
                    (p\<lparr>X_train := Some (Frame Xtr), X_test := Some (Frame Xte),
                       y_train := Some ytr, y_test := Some yte\<rparr>,
                     Inr (Xtr, Xte, ytr, yte)))))"

text \<open>
  \<open>scale_features\<close>: \<open>self.X_train = self.scaler.fit_transform(self.X_train)\<close>, then
  \<open>self.X_test = self.scaler.transform(self.X_test)\<close>. The scaler is one object
  updated in place: a fit that raises leaves it reset, and a fitted scaler stays
  fitted when the transform of the test set raises.
\<close>

definition table_matrix :: "table option \<Rightarrow> error + matrix" where
  "table_matrix t = (case t of None \<Rightarrow> Inl ValueError | Some X \<Rightarrow> Inr (table_values X))"

definition scale_features :: "DataProcessor \<Rightarrow> DataProcessor \<times> (error + matrix \<times> matrix)" where
  "scale_features p =
     (case table_matrix (X_train p) of
        Inl e \<Rightarrow> (p\<lparr>dp_scaler := UnfittedScaler\<rparr>, Inl e)
      | Inr tr \<Rightarrow>
          (case StandardScaler_fit tr of
             Inl e \<Rightarrow> (p\<lparr>dp_scaler := UnfittedScaler\<rparr>, Inl e)
           | Inr sc \<Rightarrow>
               (case StandardScaler_transform sc tr of
                  Inl e \<Rightarrow> (p\<lparr>dp_scaler := sc\<rparr>, Inl e)
                | Inr Xtr \<Rightarrow>
                    (case table_matrix (X_test p) of
                       Inl e \<Rightarrow> (p\<lparr>dp_scaler := sc, X_train := Some (Array Xtr)\<rparr>, Inl e)
                     | Inr te \<Rightarrow>
                         (case StandardScaler_transform sc te of
                            Inl e \<Rightarrow> (p\<lparr>dp_scaler := sc, X_train := Some (Array Xtr)\<rparr>, Inl e)
                          | Inr Xte \<Rightarrow>
                              (p\<lparr>dp_scaler := sc, X_train := Some (Array Xtr),
                                 X_test := Some (Array Xte)\<rparr>,
                               Inr (Xtr, Xte)))))))"

definition get_feature_names :: "DataProcessor \<Rightarrow> error + string list" where
  "get_feature_names p =
     (case df p of
        None \<Rightarrow> Inl AttributeError
      | Some d \<Rightarrow> (case drop_column ''price'' d of Inl e \<Rightarrow> Inl e | Inr X \<Rightarrow> Inr (map fst X)))"

section \<open>The bundle on disk\<close>

text \<open>
  A file is missing, empty (opened for writing and not yet written), or holds a value.
  A directory of the store holds the four files of a bundle; the file system maps a
  directory name to its files. The metrics are \<open>{}\<close> (\<open>None\<close>) before an evaluation.
\<close>

datatype 'a stored = Missing | Truncated | Content 'a

record split_metrics =
  mse :: real
  rmse :: real
  mae :: real
  r2 :: real

record metrics_dict =
  train_metrics :: split_metrics
  test_metrics :: split_metrics

record directory =
  linear_regression_model_pkl :: "LinearRegression option stored"
  scaler_pkl :: "StandardScaler stored"
  metrics_json :: "metrics_dict option stored"
  features_json :: "string list stored"

type_synonym filesystem = "string \<Rightarrow> directory"

definition path_join :: "string \<Rightarrow> string \<Rightarrow> string" where
  "path_join dir name =
     (if dir = [] then name
      else if last dir = CHR ''/'' then dir @ name
      else dir @ ''/'' @ name)"

definition pickle_load :: "string \<Rightarrow> 'a stored \<Rightarrow> error + 'a" where
  "pickle_load path f =
     (case f of Missing \<Rightarrow> Inl (FileNotFoundError path) | Truncated \<Rightarrow> Inl EOFError | Content x \<Rightarrow> Inr x)"

definition json_load :: "string \<Rightarrow> 'a stored \<Rightarrow> error + 'a" where
  "json_load path f =
     (case f of Missing \<Rightarrow> Inl (FileNotFoundError path) | Truncated \<Rightarrow> Inl ValueError | Content x \<Rightarrow> Inr x)"

section \<open>train\_model.py: ModelTrainer\<close>

text \<open>\<open>mt_model\<close> and \<open>mt_metrics\<close> are the fields \<open>model\<close> and \<open>metrics\<close> of the class.\<close>

record ModelTrainer =
  mt_model :: "LinearRegression option"
  mt_metrics :: "metrics_dict option"
  processor :: "DataProcessor option"

definition train ::
  "ModelTrainer \<Rightarrow> matrix \<Rightarrow> real list \<Rightarrow> ModelTrainer \<times> (error + LinearRegression)" where
  "train t X y =
     (case LinearRegression_fit X y of
        Inl e \<Rightarrow> (t\<lparr>mt_model := Some UnfittedModel\<rparr>, Inl e)
      | Inr m \<Rightarrow> (t\<lparr>mt_model := Some m\<rparr>, Inr m))"

text \<open>
  \<open>save_model\<close>. \<open>os.makedirs(model_dir, exist_ok=True)\<close> raises FileNotFoundError
  on the empty name; every other name is taken to be a directory that exists or can
  be created. Then each file is opened for writing under its final name, which
  empties it, and the value is dumped into it, in the order model, scaler, metrics,
  features. \<open>open(scaler_path, 'wb')\<close> comes before \<open>self.processor.scaler\<close> is read,
  and \<open>self.processor.get_feature_names()\<close> before \<open>open(features_path, 'w')\<close>.

  \<open>save_model_trace\<close> lists the state of the store after each of these steps, as a
  reader of the directory can find it, together with the outcome; \<open>save_model\<close> is
  the last of these states and the outcome.
\<close>

definition put_model :: "string \<Rightarrow> LinearRegression option stored \<Rightarrow> filesystem \<Rightarrow> filesystem" where
  "put_model dir v fs = fs(dir := (fs dir)\<lparr>linear_regression_model_pkl := v\<rparr>)"

definition put_scaler :: "string \<Rightarrow> StandardScaler stored \<Rightarrow> filesystem \<Rightarrow> filesystem" where
  "put_scaler dir v fs = fs(dir := (fs dir)\<lparr>scaler_pkl := v\<rparr>)"

definition put_metrics :: "string \<Rightarrow> metrics_dict option stored \<Rightarrow> filesystem \<Rightarrow> filesystem" where
  "put_metrics dir v fs = fs(dir := (fs dir)\<lparr>metrics_json := v\<rparr>)"

definition put_features :: "string \<Rightarrow> string list stored \<Rightarrow> filesystem \<Rightarrow> filesystem" where
  "put_features dir v fs = fs(dir := (fs dir)\<lparr>features_json := v\<rparr>)"

definition save_model_trace ::
  "ModelTrainer \<Rightarrow> string \<Rightarrow> filesystem \<Rightarrow>
   filesystem list \<times> (error + string \<times> string \<times> string \<times> string)" where
  "save_model_trace t dir fs =
     (if dir = [] then ([], Inl (FileNotFoundError dir))
      else
        let s1 = put_model dir Truncated fs;
            s2 = put_model dir (Content (mt_model t)) s1;
            s3 = put_scaler dir Truncated s2
        in case processor t of
             None \<Rightarrow> ([s1, s2, s3], Inl AttributeError)
           | Some pr \<Rightarrow>
               (let s4 = put_scaler dir (Content (dp_scaler pr)) s3;
                    s5 = put_metrics dir Truncated s4;
                    s6 = put_metrics dir (Content (mt_metrics t)) s5
                in case get_feature_names pr of
                     Inl e \<Rightarrow> ([s1, s2, s3, s4, s5, s6], Inl e)
                   | Inr names \<Rightarrow>
                       (let s7 = put_features dir Truncated s6;
                            s8 = put_features dir (Content names) s7
                        in ([s1, s2, s3, s4, s5, s6, s7, s8],
                            Inr (path_join dir ''linear_regression_model.pkl'',
                                 path_join dir ''scaler.pkl'',
                                 path_join dir ''metrics.json'',
                                 path_join dir ''features.json'')))))"

definition save_model ::
  "ModelTrainer \<Rightarrow> string \<Rightarrow> filesystem \<Rightarrow>
   filesystem \<times> (error + string \<times> string \<times> string \<times> string)" where
  "save_model t dir fs =
     (case save_model_trace t dir fs of (states, outcome) \<Rightarrow> (last (fs # states), outcome))"

section \<open>predict.py: ModelPredictor\<close>

text \<open>
  The fields \<open>load_model\<close> fills. \<open>model\<close> is whatever the model pickle held: Python's
  \<open>None\<close> or a \<open>LinearRegression\<close>. The metrics file is not loaded.
\<close>

record ModelPredictor =
  model_dir :: string
  model :: "LinearRegression option"
  scaler :: StandardScaler
  feature_names :: "string list"

definition load_model :: "string \<Rightarrow> filesystem \<Rightarrow> error + ModelPredictor" where
  "load_model dir fs =
     (case pickle_load (path_join dir ''linear_regression_model.pkl'')
             (linear_regression_model_pkl (fs dir)) of
        Inl e \<Rightarrow> Inl e
      | Inr m \<Rightarrow>
          (case pickle_load (path_join dir ''scaler.pkl'') (scaler_pkl (fs dir)) of
             Inl e \<Rightarrow> Inl e
           | Inr sc \<Rightarrow>
               (case json_load (path_join dir ''features.json'') (features_json (fs dir)) of
                  Inl e \<Rightarrow> Inl e
                | Inr names \<Rightarrow>
                    Inr \<lparr>model_dir = dir, model = m, scaler = sc, feature_names = names\<rparr>)))"

text \<open>
  The argument of \<open>predict\<close>: a dict (its items in insertion order, keys distinct) or a
  list of values.
\<close>

datatype features = FDict "(string \<times> real) list" | FList "real list"

text \<open>\<open>[features[f] for f in self.feature_names]\<close>: the first absent key raises KeyError.\<close>

fun dict_values :: "(string \<times> real) list \<Rightarrow> string list \<Rightarrow> error + real list" where
  "dict_values d [] = Inr []"
| "dict_values d (f # fs) =
     (case map_of d f of
        None \<Rightarrow> Inl (KeyError [f])
      | Some v \<Rightarrow> (case dict_values d fs of Inl e \<Rightarrow> Inl e | Inr vs \<Rightarrow> Inr (v # vs)))"

definition features_array :: "ModelPredictor \<Rightarrow> features \<Rightarrow> error + matrix" where
  "features_array p fs =
     (case fs of
        FDict d \<Rightarrow> (case dict_values d (feature_names p) of Inl e \<Rightarrow> Inl e | Inr vs \<Rightarrow> Inr [vs])
      | FList vs \<Rightarrow> Inr [vs])"

definition model_predict :: "LinearRegression option \<Rightarrow> matrix \<Rightarrow> error + real list" where
  "model_predict m X =
     (case m of None \<Rightarrow> Inl AttributeError | Some lr \<Rightarrow> LinearRegression_predict lr X)"

definition predict :: "ModelPredictor \<Rightarrow> features \<Rightarrow> error + real" where
  "predict p fs =
     (case features_array p fs of
        Inl e \<Rightarrow> Inl e
      | Inr arr \<Rightarrow>
          (case StandardScaler_transform (scaler p) arr of
             Inl e \<Rightarrow> Inl e
           | Inr scaled_features \<Rightarrow>
               (case model_predict (model p) scaled_features of
                  Inl e \<Rightarrow> Inl e
                | Inr [] \<Rightarrow> Inl IndexError
                | Inr (y # _) \<Rightarrow> Inr y)))"

text \<open>
  \<open>predict_batch\<close> takes a dict of columns, one list of values per feature name, and
  calls \<open>self.model.predict\<close> on the array of all rows. numpy evaluates
  \<open>X @ coef_ + intercept_\<close> for an array with a kernel chosen by its shape, and what
  it gets for a row inside an array of several rows can differ in the last bits from
  what it gets for that row alone. So the value for a row of a batch is not written
  with \<open>dot\<close>, which stands for the one-row evaluation in \<open>predict\<close>: it is the
  parameter \<open>batched n i row coef intercept\<close>, the value numpy returns at index \<open>i\<close>
  of an array of \<open>n\<close> rows whose row \<open>i\<close> is \<open>row\<close>. \<open>exact_linear\<close> is the instance
  of exact arithmetic.
\<close>

type_synonym batch_kernel = "nat \<Rightarrow> nat \<Rightarrow> real list \<Rightarrow> real list \<Rightarrow> real \<Rightarrow> real"

definition exact_linear :: batch_kernel where
  "exact_linear n i row cs b = dot row cs + b"

fun LinearRegression_predict_array ::
  "batch_kernel \<Rightarrow> LinearRegression \<Rightarrow> matrix \<Rightarrow> error + real list" where
  "LinearRegression_predict_array batched UnfittedModel X = Inl NotFittedError"
| "LinearRegression_predict_array batched (FittedModel cs b) X =
     (case check_array (length cs) X of
        Inl e \<Rightarrow> Inl e
      | Inr X' \<Rightarrow> Inr (map (\<lambda>i. batched (length X') i (X' ! i) cs b) [0..<length X']))"

definition model_predict_array ::
  "batch_kernel \<Rightarrow> LinearRegression option \<Rightarrow> matrix \<Rightarrow> error + real list" where
  "model_predict_array batched m X =
     (case m of
        None \<Rightarrow> Inl AttributeError
      | Some lr \<Rightarrow> LinearRegression_predict_array batched lr X)"

definition predict_batch :: "batch_kernel \<Rightarrow> ModelPredictor \<Rightarrow> data_frame \<Rightarrow> error + real list" where
  "predict_batch batched p data_dict =
     (case DataFrame data_dict of
        Inl e \<Rightarrow> Inl e
      | Inr d \<Rightarrow>
          (case select_values d (feature_names p) of
             Inl e \<Rightarrow> Inl e
           | Inr fts \<Rightarrow>
               (case StandardScaler_transform (scaler p) fts of
                  Inl e \<Rightarrow> Inl e
                | Inr scaled_features \<Rightarrow>
                    model_predict_array batched (model p) scaled_features)))"

text \<open>
  \<open>predict_with_confidence\<close> predicts, then opens \<open>metrics.json\<close> in the model
  directory and reads the test metrics from it, at every call.
\<close>

record confidence_result =
  prediction :: real
  confidence :: real
  model_rmse :: real

definition predict_with_confidence ::
  "ModelPredictor \<Rightarrow> filesystem \<Rightarrow> features \<Rightarrow> error + confidence_result" where
  "predict_with_confidence p fs fts =
     (case predict p fts of
        Inl e \<Rightarrow> Inl e
      | Inr y \<Rightarrow>
          (case json_load (path_join (model_dir p) ''metrics.json'') (metrics_json (fs (model_dir p))) of
             Inl e \<Rightarrow> Inl e
           | Inr None \<Rightarrow> Inl (KeyError [''test''])
           | Inr (Some ms) \<Rightarrow>
               Inr \<lparr>prediction = y, confidence = r2 (test_metrics ms),
                    model_rmse = rmse (test_metrics ms)\<rparr>))"

section \<open>Reference notions and example inputs\<close>

text \<open>
  A bundle as a training run writes it: fitted scaler and model, over as many features
  as the schema lists, at least one.
\<close>

definition bundle_consistent :: "ModelPredictor \<Rightarrow> bool" where
  "bundle_consistent p =
     (case (scaler p, model p) of
        (FittedScaler ms ss, Some (FittedModel cs b)) \<Rightarrow>
          feature_names p \<noteq> [] \<and> length ms = length (feature_names p)
          \<and> length ss = length ms \<and> length cs = length ms
      | _ \<Rightarrow> False)"

text \<open>The record at position \<open>i\<close> of a batch given by columns.\<close>

definition batch_record :: "data_frame \<Rightarrow> nat \<Rightarrow> (string \<times> real) list" where
  "batch_record d i = map (\<lambda>(k, col). (k, col ! i)) d"

definition example_predictor :: ModelPredictor where
  "example_predictor =
     \<lparr>model_dir = ''models'',
      model = Some (FittedModel [3, 5] 100),
      scaler = FittedScaler [10, 2] [2, 1],
      feature_names = [''square_feet'', ''num_bedrooms'']\<rparr>"

definition example_batch :: data_frame where
  "example_batch = [(''num_bedrooms'', [4, 3]), (''square_feet'', [14, 12])]"

definition empty_batch :: data_frame where
  "empty_batch = [(''square_feet'', []), (''num_bedrooms'', [])]"

definition example_metrics :: metrics_dict where
  "example_metrics =
     \<lparr>train_metrics = \<lparr>mse = 100, rmse = 10, mae = 8, r2 = 19 / 20\<rparr>,
      test_metrics = \<lparr>mse = 400, rmse = 20, mae = 15, r2 = 9 / 10\<rparr>\<rparr>"

definition later_metrics :: metrics_dict where
  "later_metrics =
     \<lparr>train_metrics = \<lparr>mse = 2500, rmse = 50, mae = 40, r2 = 3 / 5\<rparr>,
      test_metrics = \<lparr>mse = 8100, rmse = 90, mae = 70, r2 = 1 / 2\<rparr>\<rparr>"

text \<open>The bundle \<open>example_predictor\<close> is loaded from, and the same store after a later
  run replaced its metrics file.\<close>

definition example_dir :: directory where
  "example_dir =
     \<lparr>linear_regression_model_pkl = Content (Some (FittedModel [3, 5] 100)),
      scaler_pkl = Content (FittedScaler [10, 2] [2, 1]),
      metrics_json = Content (Some example_metrics),
      features_json = Content [''square_feet'', ''num_bedrooms'']\<rparr>"

definition no_dir :: directory where
  "no_dir = \<lparr>linear_regression_model_pkl = Missing, scaler_pkl = Missing,
             metrics_json = Missing, features_json = Missing\<rparr>"

definition example_fs :: filesystem where
  "example_fs = (\<lambda>dir. if dir = ''models'' then example_dir else no_dir)"

definition later_fs :: filesystem where
  "later_fs = example_fs(''models'' := example_dir\<lparr>metrics_json := Content (Some later_metrics)\<rparr>)"

text \<open>A trainer as \<open>ModelTrainer()\<close> and \<open>train\<close> leave it (no processor set), and one
  as \<open>train_pipeline\<close> sets it up.\<close>

definition bare_trainer :: ModelTrainer where
  "bare_trainer = \<lparr>mt_model = Some (FittedModel [7, 7] 0), mt_metrics = None, processor = None\<rparr>"

definition example_processor :: DataProcessor where
  "example_processor =
     \<lparr>filepath = ''data/house_data.csv'',
      df = Some [(''square_feet'', [14, 12, 8, 6]), (''num_bedrooms'', [4, 3, 2, 1]),
                 (''price'', [116, 108, 94, 83])],
      X_train = None, X_test = None, y_train = None, y_test = None,
      dp_scaler = FittedScaler [10, 5 / 2] [2, 1]\<rparr>"

definition pipeline_trainer :: ModelTrainer where
  "pipeline_trainer =
     \<lparr>mt_model = Some (FittedModel [7, 7] 0), mt_metrics = Some later_metrics,
      processor = Some example_processor\<rparr>"

definition new_trainer :: ModelTrainer where
  "new_trainer = \<lparr>mt_model = None, mt_metrics = None, processor = None\<rparr>"

text \<open>A processor after the split, and a stand-in for numpy's seeded permutation.\<close>

definition split_processor :: DataProcessor where
  "split_processor =
     example_processor
       \<lparr>X_train := Some (Frame [(''square_feet'', [12, 8]), (''num_bedrooms'', [3, 3])]),
        X_test := Some (Frame [(''square_feet'', [14]), (''num_bedrooms'', [4])]),
        y_train := Some [108, 94], y_test := Some [116]\<rparr>"

definition example_permutation :: "int \<Rightarrow> nat \<Rightarrow> nat list" where
  "example_permutation seed n = (if even seed then rev [0..<n] else [0..<n])"

text \<open>
  The reading of \<open>remove_outliers\<close> by rows. The z-score of a value within the values
  of the surviving rows is its distance from their mean over their sample deviation,
  undefined on fewer than two values or a zero deviation; a row is kept by a column
  when its z-score there is defined and strictly below the threshold. The surviving
  rows are computed column after column, over every column of the frame in frame
  order, each on the rows the columns before it left.
\<close>

definition sample_std :: "real list \<Rightarrow> real" where
  "sample_std xs = sqrt (sum_list (map (\<lambda>x. (x - mean xs) ^ 2) xs) / real (length xs - 1))"

definition z_score :: "real list \<Rightarrow> real \<Rightarrow> real option" where
  "z_score xs x =
     (if length xs < 2 \<or> sample_std xs = 0 then None else Some (\<bar>x - mean xs\<bar> / sample_std xs))"

definition keeps :: "real \<Rightarrow> real list \<Rightarrow> real \<Rightarrow> bool" where
  "keeps t xs x = (case z_score xs x of None \<Rightarrow> False | Some z \<Rightarrow> z < t)"

fun surviving_rows :: "real \<Rightarrow> data_frame \<Rightarrow> nat list \<Rightarrow> nat list" where
  "surviving_rows t [] rows = rows"
| "surviving_rows t ((name, col) # cols) rows =
     surviving_rows t cols (filter (\<lambda>i. keeps t (map (\<lambda>j. col ! j) rows) (col ! i)) rows)"

definition rows_at :: "nat list \<Rightarrow> data_frame \<Rightarrow> data_frame" where
  "rows_at rows d = map (\<lambda>(k, col). (k, map (\<lambda>i. col ! i) rows)) d"

text \<open>
  Follows the spec's words, for comparison with the code: the columns of the schema in
  order, each on the rows surviving so far, dropping the rows whose z-score exceeds
  the threshold.
\<close>

definition exceeds :: "real \<Rightarrow> real option \<Rightarrow> bool" where
  "exceeds t z = (case z of None \<Rightarrow> False | Some v \<Rightarrow> t < v)"

fun remove_outliers_spec :: "string list \<Rightarrow> real \<Rightarrow> data_frame \<Rightarrow> data_frame" where
  "remove_outliers_spec [] t d = d"
| "remove_outliers_spec (c # cs) t d =
     (case map_of d c of
        None \<Rightarrow> remove_outliers_spec cs t d
      | Some col \<Rightarrow>
          remove_outliers_spec cs t (boolean_index (map (\<lambda>z. \<not> exceeds t z) (z_scores col)) d))"

text \<open>Two small frames: a feature column and the target.\<close>

definition outlier_frame :: data_frame where
  "outlier_frame = [(''square_feet'', [2, 0, 0, 0]), (''price'', [100, 11, 13, 0])]"

definition boundary_frame :: data_frame where
  "boundary_frame = [(''square_feet'', [2, 0, 0, 0]), (''price'', [30, 20, 26, 14])]"


definition outlier_processor :: DataProcessor where
  "outlier_processor = example_processor\<lparr>df := Some outlier_frame\<rparr>"

definition boundary_processor :: DataProcessor where
  "boundary_processor = example_processor\<lparr>df := Some boundary_frame\<rparr>"

section \<open>Lemmas on the library objects\<close>

lemma check_array_Inr_iff:
  "check_array n X = Inr X' \<longleftrightarrow> X' = X \<and> X \<noteq> [] \<and> (\<forall>row\<in>set X. length row = n \<and> row \<noteq> [])"
  by (auto simp: check_array_def list_ex_iff)

lemma check_array_row:
  "check_array n X = Inr X' \<Longrightarrow> row \<in> set X \<Longrightarrow> check_array n [row] = Inr [row]"
  by (simp add: check_array_Inr_iff)

lemma scale_row_length:
  "length ms = length row \<Longrightarrow> length ss = length row \<Longrightarrow> length (scale_row ms ss row) = length row"
  by (simp add: scale_row_def)

section \<open>Single predictions\<close>

lemma dict_values_missing:
  "\<exists>f\<in>set fs. map_of d f = None \<Longrightarrow>
   \<exists>f. dict_values d fs = Inl (KeyError [f]) \<and> f \<in> set fs \<and> map_of d f = None"
proof (induction fs)
  case Nil
  then show ?case by simp
next
  case (Cons a fs)
  show ?case
  proof (cases "map_of d a")
    case None
    then show ?thesis by auto
  next
    case (Some v)
    with Cons.prems have "\<exists>f\<in>set fs. map_of d f = None" by auto
    from Cons.IH [OF this] Some show ?thesis by auto
  qed
qed

lemma dict_values_complete:
  "\<forall>f\<in>set fs. map_of d f \<noteq> None \<Longrightarrow> dict_values d fs = Inr (map (\<lambda>f. the (map_of d f)) fs)"
  by (induction fs) (auto split: option.splits sum.splits)

lemma dict_values_cong:
  "\<forall>f\<in>set fs. map_of d f = map_of d' f \<Longrightarrow> dict_values d fs = dict_values d' fs"
  by (induction fs) (auto split: option.splits sum.splits)

lemma map_of_filter_keys:
  "k \<in> S \<Longrightarrow> map_of (filter (\<lambda>(k, v). k \<in> S) d) k = map_of d k"
  by (induction d) auto

text \<open>The pipeline after the feature array, on one row that fits scaler and model.\<close>

lemma predict_row:
  assumes "scaler p = FittedScaler ms ss" "model p = Some (FittedModel cs b)"
    "length vs = length ms" "length ss = length ms" "length cs = length ms" "vs \<noteq> []"
  shows "(case StandardScaler_transform (scaler p) [vs] of
             Inl e \<Rightarrow> Inl e
           | Inr scaled_features \<Rightarrow>
               (case model_predict (model p) scaled_features of
                  Inl e \<Rightarrow> Inl e
                | Inr [] \<Rightarrow> Inl IndexError
                | Inr (y # _) \<Rightarrow> Inr y)) = Inr (dot (scale_row ms ss vs) cs + b)"
proof -
  have "length (scale_row ms ss vs) = length ms"
    using assms by (simp add: scale_row_length)
  moreover have "scale_row ms ss vs \<noteq> []"
    using assms calculation by (metis length_0_conv)
  ultimately show ?thesis
    using assms by (simp add: check_array_def model_predict_def)
qed

lemma predict_example_record:
  "predict example_predictor
     (FDict [(''num_bedrooms'', 4), (''garage'', 1), (''square_feet'', 14)]) = Inr 116"
  by (simp add: predict_def features_array_def example_predictor_def check_array_def
      scale_row_def model_predict_def dot_def)

text \<open>
  C1. A dict that lacks a schema feature makes \<open>predict\<close> raise the KeyError that names
  an absent feature (the spec's MissingFeatureError), and no price is returned. On a
  consistent bundle, a dict that has every schema feature gets one price, the same
  price as the dict without its extra keys.
\<close>

theorem predict_missing_feature_contract:
  "((\<exists>f\<in>set (feature_names p). map_of d f = None) \<longrightarrow>
      (\<exists>f. predict p (FDict d) = Inl (KeyError [f]) \<and> f \<in> set (feature_names p) \<and> map_of d f = None))
   \<and> (bundle_consistent p \<and> (\<forall>f\<in>set (feature_names p). map_of d f \<noteq> None) \<longrightarrow>
      (\<exists>y. predict p (FDict d) = Inr y
         \<and> predict p (FDict (filter (\<lambda>(k, v). k \<in> set (feature_names p)) d)) = Inr y))"
proof (intro conjI impI)
  assume "\<exists>f\<in>set (feature_names p). map_of d f = None"
  from dict_values_missing [OF this]
  show "\<exists>f. predict p (FDict d) = Inl (KeyError [f]) \<and> f \<in> set (feature_names p) \<and> map_of d f = None"
    by (auto simp: predict_def features_array_def)
next
  assume a: "bundle_consistent p \<and> (\<forall>f\<in>set (feature_names p). map_of d f \<noteq> None)"
  let ?fs = "feature_names p"
  let ?d' = "filter (\<lambda>(k, v). k \<in> set ?fs) d"
  let ?vs = "map (\<lambda>f. the (map_of d f)) ?fs"
  from a obtain ms ss cs b where sc: "scaler p = FittedScaler ms ss"
    and md: "model p = Some (FittedModel cs b)"
    and len: "?fs \<noteq> []" "length ms = length ?fs" "length ss = length ms" "length cs = length ms"
    by (auto simp: bundle_consistent_def
        split: StandardScaler.splits option.splits LinearRegression.splits)
  have dv: "dict_values d ?fs = Inr ?vs" using a by (simp add: dict_values_complete)
  have "dict_values ?d' ?fs = dict_values d ?fs"
    by (rule dict_values_cong) (simp add: map_of_filter_keys)
  then have dv': "dict_values ?d' ?fs = Inr ?vs" using dv by simp
  have row: "(case StandardScaler_transform (scaler p) [?vs] of
             Inl e \<Rightarrow> Inl e
           | Inr scaled_features \<Rightarrow>
               (case model_predict (model p) scaled_features of
                  Inl e \<Rightarrow> Inl e
                | Inr [] \<Rightarrow> Inl IndexError
                | Inr (y # _) \<Rightarrow> Inr y)) = Inr (dot (scale_row ms ss ?vs) cs + b)"
    by (rule predict_row [OF sc md]) (use len in simp_all)
  have "predict p (FDict d) = Inr (dot (scale_row ms ss ?vs) cs + b)"
    unfolding predict_def features_array_def using dv row by simp
  moreover have "predict p (FDict ?d') = Inr (dot (scale_row ms ss ?vs) cs + b)"
    unfolding predict_def features_array_def using dv' row by simp
  ultimately show "\<exists>y. predict p (FDict d) = Inr y \<and> predict p (FDict ?d') = Inr y"
    by simp
qed

theorem predict_missing_feature_contract_witness:
  "predict example_predictor (FDict [(''square_feet'', 14), (''garage'', 1)])
     = Inl (KeyError [''num_bedrooms''])
   \<and> predict example_predictor (FDict [(''num_bedrooms'', 4), (''square_feet'', 14)]) = Inr 116"
proof -
  let ?short = "[(''square_feet'', 14), (''garage'', 1 :: real)]"
  let ?full = "[(''num_bedrooms'', 4), (''garage'', 1), (''square_feet'', 14 :: real)]"
  have "\<exists>f\<in>set (feature_names example_predictor). map_of ?short f = None"
    by (simp add: example_predictor_def)
  with predict_missing_feature_contract [of example_predictor ?short]
  obtain f where f: "predict example_predictor (FDict ?short) = Inl (KeyError [f])"
    "f \<in> set (feature_names example_predictor)" "map_of ?short f = None"
    by blast
  from f(2,3) have "f = ''num_bedrooms''"
    by (auto simp: example_predictor_def split: if_splits)
  with f(1) have short: "predict example_predictor (FDict ?short) = Inl (KeyError [''num_bedrooms''])"
    by simp
  have "bundle_consistent example_predictor
      \<and> (\<forall>f\<in>set (feature_names example_predictor). map_of ?full f \<noteq> None)"
    by (simp add: bundle_consistent_def example_predictor_def)
  with predict_missing_feature_contract [of example_predictor ?full]
  obtain y where y: "predict example_predictor (FDict ?full) = Inr y"
    "predict example_predictor
       (FDict (filter (\<lambda>(k, v). k \<in> set (feature_names example_predictor)) ?full)) = Inr y"
    by blast
  from y(1) have "y = 116" by (simp add: predict_example_record)
  with y(2) have "predict example_predictor (FDict [(''num_bedrooms'', 4), (''square_feet'', 14)]) = Inr 116"
    by (simp add: example_predictor_def)
  with short show ?thesis by simp
qed

text \<open>
  C7. Two dicts with the same items in a different key order get the same outcome from
  \<open>predict\<close>, a price or an error.
\<close>

theorem predict_key_order_invariant:
  assumes "distinct (map fst d)" and "mset d' = mset d"
  shows "predict p (FDict d') = predict p (FDict d)"
proof -
  from assms(2) have s: "set d' = set d" by (rule mset_eq_setD)
  from assms(2) have "mset (map fst d') = mset (map fst d)" by simp
  with assms(1) have "distinct (map fst d')" by (metis mset_eq_imp_distinct_iff)
  with assms(1) s have "map_of d' = map_of d" by (simp add: map_of_inject_set)
  then have "dict_values d' (feature_names p) = dict_values d (feature_names p)"
    by (intro dict_values_cong) simp
  then show ?thesis by (simp add: predict_def features_array_def)
qed

theorem predict_key_order_invariant_witness:
  "predict example_predictor (FDict [(''square_feet'', 14), (''garage'', 1), (''num_bedrooms'', 4)])
     = Inr 116"
proof -
  let ?d = "[(''num_bedrooms'', 4), (''garage'', 1), (''square_feet'', 14 :: real)]"
  let ?d' = "[(''square_feet'', 14), (''garage'', 1), (''num_bedrooms'', 4 :: real)]"
  have 1: "distinct (map fst ?d)" by simp
  have 2: "mset ?d' = mset ?d" by (simp add: add_mset_commute)
  from predict_key_order_invariant [OF 1 2, of example_predictor] predict_example_record
  show ?thesis by simp
qed

text \<open>
  C10. On a list, \<open>predict\<close> never consults the schema: replacing the feature names by
  any others leaves the outcome unchanged, no KeyError is raised, and when the list
  fits scaler and model its values are used by position.
\<close>

theorem predict_list_ignores_schema:
  "predict (p\<lparr>feature_names := names\<rparr>) (FList vs) = predict p (FList vs)
   \<and> predict p (FList vs) \<noteq> Inl (KeyError ks)
   \<and> (scaler p = FittedScaler ms ss \<and> model p = Some (FittedModel cs b) \<and> vs \<noteq> []
        \<and> length vs = length ms \<and> length ss = length ms \<and> length cs = length ms \<longrightarrow>
      predict p (FList vs) = Inr (dot (scale_row ms ss vs) cs + b))"
proof (intro conjI impI)
  show "predict (p\<lparr>feature_names := names\<rparr>) (FList vs) = predict p (FList vs)"
    by (simp add: predict_def features_array_def cong: sum.case_cong)
  show "predict p (FList vs) \<noteq> Inl (KeyError ks)"
    by (cases "scaler p"; cases "model p"; cases "the (model p)")
      (auto simp: predict_def features_array_def check_array_def model_predict_def
        split: sum.splits list.splits if_splits)
next
  assume a: "scaler p = FittedScaler ms ss \<and> model p = Some (FittedModel cs b) \<and> vs \<noteq> []
        \<and> length vs = length ms \<and> length ss = length ms \<and> length cs = length ms"
  then have "(case StandardScaler_transform (scaler p) [vs] of
             Inl e \<Rightarrow> Inl e
           | Inr scaled_features \<Rightarrow>
               (case model_predict (model p) scaled_features of
                  Inl e \<Rightarrow> Inl e
                | Inr [] \<Rightarrow> Inl IndexError
                | Inr (y # _) \<Rightarrow> Inr y)) = Inr (dot (scale_row ms ss vs) cs + b)"
    by (intro predict_row) simp_all
  then show "predict p (FList vs) = Inr (dot (scale_row ms ss vs) cs + b)"
    by (simp add: predict_def features_array_def)
qed

theorem predict_list_ignores_schema_witness:
  "predict (example_predictor\<lparr>feature_names := [''price'', ''a'', ''b'']\<rparr>) (FList [14, 4]) = Inr 116"
proof -
  have "scaler example_predictor = FittedScaler [10, 2] [2, 1]
      \<and> model example_predictor = Some (FittedModel [3, 5] 100) \<and> [14, 4 :: real] \<noteq> []
      \<and> length [14, 4 :: real] = length [10, 2 :: real] \<and> length [2, 1 :: real] = length [10, 2 :: real]
      \<and> length [3, 5 :: real] = length [10, 2 :: real]"
    by (simp add: example_predictor_def)
  with predict_list_ignores_schema
    [where p = example_predictor and names = "[''price'', ''a'', ''b'']" and vs = "[14, 4]"
      and ks = "[]" and ms = "[10, 2]" and ss = "[2, 1]" and cs = "[3, 5]" and b = 100]
  show ?thesis by (simp add: scale_row_def dot_def)
qed

section \<open>Batch predictions\<close>

lemma map_of_batch_record:
  "map_of (batch_record d i) f = map_option (\<lambda>col. col ! i) (map_of d f)"
  by (induction d) (auto simp: batch_record_def)

lemma dict_values_batch_record:
  assumes "filter (\<lambda>f. map_of d f = None) names = []"
  shows "dict_values (batch_record d i) names = Inr (map (\<lambda>f. the (map_of d f) ! i) names)"
proof -
  from assms have pres: "\<forall>f\<in>set names. map_of d f \<noteq> None"
    by (simp add: filter_empty_conv)
  then have "\<forall>f\<in>set names. map_of (batch_record d i) f \<noteq> None"
    by (simp add: map_of_batch_record)
  then have "dict_values (batch_record d i) names
      = Inr (map (\<lambda>f. the (map_of (batch_record d i) f)) names)"
    by (rule dict_values_complete)
  also have "map (\<lambda>f. the (map_of (batch_record d i) f)) names
      = map (\<lambda>f. the (map_of d f) ! i) names"
    using pres by (auto simp: map_of_batch_record)
  finally show ?thesis .
qed

lemma select_values_Inr:
  "select_values d names = Inr X \<Longrightarrow>
     filter (\<lambda>f. map_of d f = None) names = []
     \<and> X = map (\<lambda>i. map (\<lambda>f. the (map_of d f) ! i) names) [0..<n_rows d]"
  by (auto simp: select_values_def split: list.splits)

text \<open>
  What a returned batch holds: at each index the batched evaluation of the model on
  the scaled features of that record, the scaled features \<open>predict\<close> evaluates.
\<close>

lemma predict_batch_rows:
  assumes "predict_batch batched p d = Inr ys"
  shows "0 < n_rows d \<and> length ys = n_rows d
     \<and> (\<forall>i<n_rows d. \<exists>srow cs b.
           model p = Some (FittedModel cs b)
           \<and> predict p (FDict (batch_record d i)) = Inr (dot srow cs + b)
           \<and> ys ! i = batched (n_rows d) i srow cs b)"
proof -
  let ?names = "feature_names p"
  let ?X = "map (\<lambda>i. map (\<lambda>f. the (map_of d f) ! i) ?names) [0..<n_rows d]"
  from assms have fr: "DataFrame d = Inr d"
    by (auto simp: predict_batch_def DataFrame_def split: sum.splits if_splits)
  from assms fr obtain fts where sel: "select_values d ?names = Inr fts"
    by (auto simp: predict_batch_def split: sum.splits)
  from select_values_Inr [OF sel] have pres: "filter (\<lambda>f. map_of d f = None) ?names = []"
    and fts: "fts = ?X" by simp_all
  from assms fr sel obtain scaled where tr: "StandardScaler_transform (scaler p) fts = Inr scaled"
    and mp: "model_predict_array batched (model p) scaled = Inr ys"
    by (auto simp: predict_batch_def split: sum.splits)
  from tr obtain ms ss where sc: "scaler p = FittedScaler ms ss"
    by (cases "scaler p") auto
  from tr sc have chk: "check_array (length ms) fts = Inr fts"
    and scaled: "scaled = map (scale_row ms ss) fts"
    by (auto simp: check_array_Inr_iff split: sum.splits)
  from mp obtain cs b where md: "model p = Some (FittedModel cs b)"
    by (cases "model p"; cases "the (model p)") (auto simp: model_predict_array_def)
  from mp md have chk2: "check_array (length cs) scaled = Inr scaled"
    and ys: "ys = map (\<lambda>i. batched (length scaled) i (scaled ! i) cs b) [0..<length scaled]"
    by (auto simp: model_predict_array_def check_array_Inr_iff split: sum.splits)
  have n: "length scaled = n_rows d" by (simp add: scaled fts)
  from chk have "fts \<noteq> []" by (simp add: check_array_Inr_iff)
  then have pos: "0 < n_rows d" by (simp add: fts)
  have len: "length ys = n_rows d" by (simp add: ys n)
  have "\<exists>srow cs b. model p = Some (FittedModel cs b)
           \<and> predict p (FDict (batch_record d i)) = Inr (dot srow cs + b)
           \<and> ys ! i = batched (n_rows d) i srow cs b" if i: "i < n_rows d" for i
  proof -
    have row: "fts ! i = map (\<lambda>f. the (map_of d f) ! i) ?names"
      using i by (simp add: fts)
    have mem: "fts ! i \<in> set fts" by (rule nth_mem) (use i in \<open>simp add: fts\<close>)
    have mem2: "scale_row ms ss (fts ! i) \<in> set scaled"
      using mem by (simp add: scaled)
    have fa: "features_array p (FDict (batch_record d i)) = Inr [fts ! i]"
      by (simp add: features_array_def dict_values_batch_record [OF pres] row)
    have t1: "StandardScaler_transform (scaler p) [fts ! i] = Inr [scale_row ms ss (fts ! i)]"
      using check_array_row [OF chk mem] by (simp add: sc)
    have t2: "model_predict (model p) [scale_row ms ss (fts ! i)]
        = Inr [dot (scale_row ms ss (fts ! i)) cs + b]"
      using check_array_row [OF chk2 mem2] by (simp add: md model_predict_def)
    have p1: "predict p (FDict (batch_record d i)) = Inr (dot (scale_row ms ss (fts ! i)) cs + b)"
      by (simp add: predict_def fa t1 t2)
    have "scaled ! i = scale_row ms ss (fts ! i)"
      using i by (simp add: scaled fts)
    then have "ys ! i = batched (n_rows d) i (scale_row ms ss (fts ! i)) cs b"
      using i by (simp add: ys n)
    with md p1 show ?thesis by blast
  qed
  with pos len show ?thesis by blast
qed

lemma predict_batch_returns:
  assumes bc: "bundle_consistent p" and fr: "DataFrame d = Inr d" and n: "0 < n_rows d"
    and pres: "\<forall>f\<in>set (feature_names p). map_of d f \<noteq> None"
  shows "\<exists>ys. predict_batch batched p d = Inr ys"
proof -
  let ?names = "feature_names p"
  let ?X = "map (\<lambda>i. map (\<lambda>f. the (map_of d f) ! i) ?names) [0..<n_rows d]"
  from bc obtain ms ss cs b where sc: "scaler p = FittedScaler ms ss"
    and md: "model p = Some (FittedModel cs b)"
    and len: "?names \<noteq> []" "length ms = length ?names" "length ss = length ms" "length cs = length ms"
    by (auto simp: bundle_consistent_def
        split: StandardScaler.splits option.splits LinearRegression.splits)
  from pres have "filter (\<lambda>f. map_of d f = None) ?names = []"
    by (simp add: filter_empty_conv)
  then have sel: "select_values d ?names = Inr ?X"
    by (simp add: select_values_def)
  have chk: "check_array (length ms) ?X = Inr ?X"
    using n len by (auto simp: check_array_Inr_iff)
  have chk2: "check_array (length cs) (map (scale_row ms ss) ?X) = Inr (map (scale_row ms ss) ?X)"
    using n len by (auto simp: check_array_Inr_iff scale_row_def)
  have tr: "StandardScaler_transform (scaler p) ?X = Inr (map (scale_row ms ss) ?X)"
    using chk by (simp add: sc)
  have "\<exists>ys. model_predict_array batched (model p) (map (scale_row ms ss) ?X) = Inr ys"
    using chk2 by (simp add: md model_predict_array_def)
  then obtain ys where mp: "model_predict_array batched (model p) (map (scale_row ms ss) ?X) = Inr ys"
    by blast
  have "predict_batch batched p d = Inr ys"
    unfolding predict_batch_def by (simp only: fr sel tr mp sum.case)
  then show ?thesis by blast
qed

text \<open>A batch of no records never returns; with its columns in place it raises ValueError.\<close>

lemma predict_batch_empty:
  assumes "n_rows d = 0"
  shows "\<exists>e. predict_batch batched p d = Inl e"
proof (rule ccontr)
  assume "\<not> (\<exists>e. predict_batch batched p d = Inl e)"
  then obtain ys where "predict_batch batched p d = Inr ys"
    by (cases "predict_batch batched p d") auto
  from predict_batch_rows [OF this] assms show False by simp
qed

lemma predict_batch_empty_ValueError:
  assumes bc: "bundle_consistent p" and fr: "DataFrame d = Inr d" and n: "n_rows d = 0"
    and pres: "\<forall>f\<in>set (feature_names p). map_of d f \<noteq> None"
  shows "predict_batch batched p d = Inl ValueError"
proof -
  from bc obtain ms ss where sc: "scaler p = FittedScaler ms ss"
    by (auto simp: bundle_consistent_def split: StandardScaler.splits)
  from pres have "filter (\<lambda>f. map_of d f = None) (feature_names p) = []"
    by (simp add: filter_empty_conv)
  then have sel: "select_values d (feature_names p) = Inr []"
    by (simp add: select_values_def n)
  show ?thesis
    by (simp add: predict_batch_def fr sel sc check_array_def)
qed

lemma predict_batch_example:
  "predict_batch exact_linear example_predictor example_batch = Inr [116, 108]"
  by (simp add: predict_batch_def DataFrame_def n_rows_def select_values_def example_batch_def
      example_predictor_def check_array_def scale_row_def model_predict_array_def dot_def upt_rec
      exact_linear_def)

text \<open>
  C3, as stated, fails on the empty batch: its columns are there and its records are
  zero, and the call raises (sklearn refuses an array of zero samples) where the claim
  expects a result of length zero.
\<close>

theorem predict_batch_empty_counterexample:
  "predict_batch exact_linear example_predictor empty_batch = Inl ValueError
   \<and> n_rows empty_batch = 0"
  by (simp add: predict_batch_def DataFrame_def n_rows_def select_values_def empty_batch_def
      example_predictor_def check_array_def)

text \<open>
  C3, amended. A batch is a dict of columns and its record \<open>i\<close> the dict of the
  entries at \<open>i\<close>. Whenever \<open>predict_batch\<close> returns, the batch has at least one
  record, the result has one value per record, in order, and the value at \<open>i\<close> is the
  batched evaluation of the model on the scaled features of record \<open>i\<close>, the same
  scaled features, coefficients and intercept from which \<open>predict\<close> computes its price
  for that record; so the two agree in exact arithmetic, and no further than the
  batched evaluation agrees with the one-row evaluation. It does return on a
  consistent bundle for every batch of at least one record whose columns have one
  length and include every schema feature. A batch of no records never returns: with
  such columns on a consistent bundle it raises ValueError.
\<close>

theorem predict_batch_consistent:
  "(predict_batch batched p d = Inr ys \<longrightarrow>
      0 < n_rows d \<and> length ys = n_rows d
      \<and> (\<forall>i<n_rows d. \<exists>srow cs b.
            model p = Some (FittedModel cs b)
            \<and> predict p (FDict (batch_record d i)) = Inr (dot srow cs + b)
            \<and> ys ! i = batched (n_rows d) i srow cs b))
   \<and> (predict_batch exact_linear p d = Inr ys \<longrightarrow>
      (\<forall>i<n_rows d. predict p (FDict (batch_record d i)) = Inr (ys ! i)))
   \<and> (bundle_consistent p \<and> DataFrame d = Inr d \<and> 0 < n_rows d
        \<and> (\<forall>f\<in>set (feature_names p). map_of d f \<noteq> None) \<longrightarrow>
      (\<exists>zs. predict_batch batched p d = Inr zs))
   \<and> (n_rows d = 0 \<longrightarrow> (\<exists>e. predict_batch batched p d = Inl e))
   \<and> (bundle_consistent p \<and> DataFrame d = Inr d \<and> n_rows d = 0
        \<and> (\<forall>f\<in>set (feature_names p). map_of d f \<noteq> None) \<longrightarrow>
      predict_batch batched p d = Inl ValueError)"
proof (intro conjI impI)
  assume "predict_batch batched p d = Inr ys"
  from predict_batch_rows [OF this]
  show "0 < n_rows d" and "length ys = n_rows d"
    and "\<forall>i<n_rows d. \<exists>srow cs b.
            model p = Some (FittedModel cs b)
            \<and> predict p (FDict (batch_record d i)) = Inr (dot srow cs + b)
            \<and> ys ! i = batched (n_rows d) i srow cs b"
    by simp_all
next
  assume "predict_batch exact_linear p d = Inr ys"
  from predict_batch_rows [OF this]
  show "\<forall>i<n_rows d. predict p (FDict (batch_record d i)) = Inr (ys ! i)"
    by (fastforce simp: exact_linear_def)
next
  assume "bundle_consistent p \<and> DataFrame d = Inr d \<and> 0 < n_rows d
        \<and> (\<forall>f\<in>set (feature_names p). map_of d f \<noteq> None)"
  then show "\<exists>zs. predict_batch batched p d = Inr zs"
    by (intro predict_batch_returns) simp_all
next
  assume "n_rows d = 0"
  then show "\<exists>e. predict_batch batched p d = Inl e" by (rule predict_batch_empty)
next
  assume "bundle_consistent p \<and> DataFrame d = Inr d \<and> n_rows d = 0
        \<and> (\<forall>f\<in>set (feature_names p). map_of d f \<noteq> None)"
  then show "predict_batch batched p d = Inl ValueError"
    by (intro predict_batch_empty_ValueError) simp_all
qed

theorem predict_batch_consistent_witness:
  "predict_batch exact_linear example_predictor example_batch = Inr [116, 108]
   \<and> predict example_predictor (FDict [(''num_bedrooms'', 3), (''square_feet'', 12)]) = Inr 108
   \<and> predict_batch exact_linear example_predictor [(''square_feet'', []), (''num_bedrooms'', [])]
       = Inl ValueError"
proof -
  have b: "predict_batch exact_linear example_predictor example_batch = Inr [116, 108]"
    by (rule predict_batch_example)
  with predict_batch_consistent [of exact_linear example_predictor example_batch "[116, 108]"]
  have "\<forall>i<n_rows example_batch.
          predict example_predictor (FDict (batch_record example_batch i)) = Inr ([116, 108] ! i)"
    by blast
  moreover have "1 < n_rows example_batch" by (simp add: n_rows_def example_batch_def)
  ultimately have "predict example_predictor (FDict (batch_record example_batch 1))
      = Inr ([116, 108] ! 1)"
    by blast
  then have r: "predict example_predictor (FDict [(''num_bedrooms'', 3), (''square_feet'', 12)]) = Inr 108"
    by (simp add: batch_record_def example_batch_def)
  let ?e = "[(''square_feet'', []), (''num_bedrooms'', [])] :: data_frame"
  have "bundle_consistent example_predictor \<and> DataFrame ?e = Inr ?e \<and> n_rows ?e = 0
      \<and> (\<forall>f\<in>set (feature_names example_predictor). map_of ?e f \<noteq> None)"
    by (simp add: bundle_consistent_def example_predictor_def DataFrame_def n_rows_def)
  with predict_batch_consistent [of exact_linear example_predictor ?e "[]"]
  have "predict_batch exact_linear example_predictor ?e = Inl ValueError"
    by blast
  with b r show ?thesis by simp
qed

section \<open>Confidence metadata\<close>

lemma load_model_dir: "load_model dir fs = Inr p \<Longrightarrow> model_dir p = dir"
  by (auto simp: load_model_def split: sum.splits)

text \<open>
  C2, as stated, fails: the metrics are no part of the loaded predictor. The predictor
  loaded from the example bundle, whose stored test r2 is 9/10, reports the r2 and rmse
  of whatever metrics file is in the directory when it is called.
\<close>

theorem predict_with_confidence_counterexample:
  "load_model ''models'' example_fs = Inr example_predictor
   \<and> metrics_json (example_fs ''models'') = Content (Some example_metrics)
   \<and> r2 (test_metrics example_metrics) = 9 / 10
   \<and> predict_with_confidence example_predictor later_fs
        (FDict [(''num_bedrooms'', 4), (''garage'', 1), (''square_feet'', 14)])
      = Inr \<lparr>prediction = 116, confidence = 1 / 2, model_rmse = 90\<rparr>"
proof -
  have "load_model ''models'' example_fs = Inr example_predictor"
    by (simp add: load_model_def example_fs_def example_dir_def pickle_load_def json_load_def
        example_predictor_def)
  moreover have "metrics_json (example_fs ''models'') = Content (Some example_metrics)"
    by (simp add: example_fs_def example_dir_def)
  moreover have "r2 (test_metrics example_metrics) = 9 / 10"
    by (simp add: example_metrics_def)
  moreover have "model_dir example_predictor = ''models''"
    by (simp add: example_predictor_def)
  then have "predict_with_confidence example_predictor later_fs
        (FDict [(''num_bedrooms'', 4), (''garage'', 1), (''square_feet'', 14)])
      = Inr \<lparr>prediction = 116, confidence = 1 / 2, model_rmse = 90\<rparr>"
    by (simp add: predict_with_confidence_def predict_example_record json_load_def
        later_fs_def later_metrics_def)
  ultimately show ?thesis by simp
qed

text \<open>
  C2, amended. For a predictor loaded from a directory, \<open>predict_with_confidence\<close>
  returns the price of \<open>predict\<close> together with the test r2 and test rmse of the
  metrics file found in that directory at the call: the values of the loaded bundle,
  and the same at every call, as long as that file is unchanged.
\<close>

theorem predict_with_confidence_reads_file:
  "load_model dir fs0 = Inr p \<and> predict p fts = Inr y
     \<and> metrics_json (fs dir) = Content (Some ms) \<longrightarrow>
   predict_with_confidence p fs fts
     = Inr \<lparr>prediction = y, confidence = r2 (test_metrics ms), model_rmse = rmse (test_metrics ms)\<rparr>"
  by (auto simp: predict_with_confidence_def json_load_def dest: load_model_dir)

theorem predict_with_confidence_reads_file_witness:
  "predict_with_confidence example_predictor example_fs
     (FDict [(''num_bedrooms'', 4), (''garage'', 1), (''square_feet'', 14)])
   = Inr \<lparr>prediction = 116, confidence = 9 / 10, model_rmse = 20\<rparr>"
proof -
  have "load_model ''models'' example_fs = Inr example_predictor"
    by (simp add: load_model_def example_fs_def example_dir_def pickle_load_def json_load_def
        example_predictor_def)
  moreover have "metrics_json (example_fs ''models'') = Content (Some example_metrics)"
    by (simp add: example_fs_def example_dir_def)
  ultimately show ?thesis
    using predict_with_confidence_reads_file
      [of "''models''" example_fs example_predictor
        "FDict [(''num_bedrooms'', 4), (''garage'', 1), (''square_feet'', 14)]" 116
        example_fs example_metrics]
      predict_example_record
    by (simp add: example_metrics_def)
qed

section \<open>Saving the bundle\<close>

lemma directory_overwritten:
  "(r :: directory)\<lparr>linear_regression_model_pkl := a, scaler_pkl := b,
      metrics_json := c, features_json := d\<rparr>
   = \<lparr>linear_regression_model_pkl = a, scaler_pkl = b, metrics_json = c, features_json = d\<rparr>"
  by (cases r) simp

lemma save_model_trace_success:
  assumes "dir \<noteq> []" "processor t = Some pr" "get_feature_names pr = Inr names"
  shows "save_model_trace t dir fs =
     ([fs(dir := (fs dir)\<lparr>linear_regression_model_pkl := Truncated\<rparr>),
       fs(dir := (fs dir)\<lparr>linear_regression_model_pkl := Content (mt_model t)\<rparr>),
       fs(dir := (fs dir)\<lparr>linear_regression_model_pkl := Content (mt_model t),
                            scaler_pkl := Truncated\<rparr>),
       fs(dir := (fs dir)\<lparr>linear_regression_model_pkl := Content (mt_model t),
                            scaler_pkl := Content (dp_scaler pr)\<rparr>),
       fs(dir := (fs dir)\<lparr>linear_regression_model_pkl := Content (mt_model t),
                            scaler_pkl := Content (dp_scaler pr),
                            metrics_json := Truncated\<rparr>),
       fs(dir := (fs dir)\<lparr>linear_regression_model_pkl := Content (mt_model t),
                            scaler_pkl := Content (dp_scaler pr),
                            metrics_json := Content (mt_metrics t)\<rparr>),
       fs(dir := (fs dir)\<lparr>linear_regression_model_pkl := Content (mt_model t),
                            scaler_pkl := Content (dp_scaler pr),
                            metrics_json := Content (mt_metrics t),
                            features_json := Truncated\<rparr>),
       fs(dir := \<lparr>linear_regression_model_pkl = Content (mt_model t),
                   scaler_pkl = Content (dp_scaler pr),
                   metrics_json = Content (mt_metrics t),
                   features_json = Content names\<rparr>)],
      Inr (path_join dir ''linear_regression_model.pkl'', path_join dir ''scaler.pkl'',
           path_join dir ''metrics.json'', path_join dir ''features.json''))"
  using assms
  by (simp add: save_model_trace_def Let_def put_model_def put_scaler_def put_metrics_def
      put_features_def directory_overwritten)

lemma save_model_trace_no_processor:
  assumes "dir \<noteq> []" "processor t = None"
  shows "save_model_trace t dir fs =
     ([fs(dir := (fs dir)\<lparr>linear_regression_model_pkl := Truncated\<rparr>),
       fs(dir := (fs dir)\<lparr>linear_regression_model_pkl := Content (mt_model t)\<rparr>),
       fs(dir := (fs dir)\<lparr>linear_regression_model_pkl := Content (mt_model t),
                            scaler_pkl := Truncated\<rparr>)],
      Inl AttributeError)"
  using assms
  by (simp add: save_model_trace_def Let_def put_model_def put_scaler_def)

lemma save_model_trace_no_names:
  assumes "dir \<noteq> []" "processor t = Some pr" "get_feature_names pr = Inl e"
  shows "save_model t dir fs =
     (fs(dir := (fs dir)\<lparr>linear_regression_model_pkl := Content (mt_model t),
                          scaler_pkl := Content (dp_scaler pr),
                          metrics_json := Content (mt_metrics t)\<rparr>),
      Inl e)"
  using assms
  by (simp add: save_model_def save_model_trace_def Let_def put_model_def put_scaler_def
      put_metrics_def)

lemma save_model_trace_elsewhere:
  "s \<in> set (fst (save_model_trace t dir fs)) \<Longrightarrow> d \<noteq> dir \<Longrightarrow> s d = fs d"
  by (auto simp: save_model_trace_def Let_def put_model_def put_scaler_def put_metrics_def
      put_features_def split: if_splits option.splits sum.splits)


text \<open>
  C9, as stated, fails: a trainer whose processor was never set overwrites the model
  file of the prior bundle, empties its scaler file and then raises, leaving the new
  model beside the old metrics and features.
\<close>

theorem save_model_partial_counterexample:
  "save_model bare_trainer ''models'' example_fs
     = (example_fs(''models'' := example_dir
          \<lparr>linear_regression_model_pkl := Content (Some (FittedModel [7, 7] 0)),
           scaler_pkl := Truncated\<rparr>),
        Inl AttributeError)"
  by (simp add: save_model_def save_model_trace_def put_model_def put_scaler_def
      bare_trainer_def example_fs_def Let_def)

text \<open>
  C9, amended. On the empty directory name \<open>save_model\<close> raises before it writes
  anything. On any other name it writes the four artifacts in place under their final
  names, in the order model, scaler, metrics, features, each file emptied and then
  filled: when the processor is set and yields the feature names, the store passes
  through the eight states listed, the second of them the new model beside the old
  scaler, metrics and features, and ends holding exactly the trainer's model, scaler,
  metrics and feature names; without a processor it ends with the new model and an
  empty scaler file, and when the feature names cannot be had with the new model,
  scaler and metrics beside the old features. No other directory changes at any step.
\<close>

theorem save_model_in_place:
  "(dir = [] \<longrightarrow>
      save_model_trace t dir fs = ([], Inl (FileNotFoundError []))
      \<and> save_model t dir fs = (fs, Inl (FileNotFoundError [])))
   \<and> (dir \<noteq> [] \<and> processor t = Some pr \<and> get_feature_names pr = Inr names \<longrightarrow>
      save_model_trace t dir fs =
        ([fs(dir := (fs dir)\<lparr>linear_regression_model_pkl := Truncated\<rparr>),
          fs(dir := (fs dir)\<lparr>linear_regression_model_pkl := Content (mt_model t)\<rparr>),
          fs(dir := (fs dir)\<lparr>linear_regression_model_pkl := Content (mt_model t),
                               scaler_pkl := Truncated\<rparr>),
          fs(dir := (fs dir)\<lparr>linear_regression_model_pkl := Content (mt_model t),
                               scaler_pkl := Content (dp_scaler pr)\<rparr>),
          fs(dir := (fs dir)\<lparr>linear_regression_model_pkl := Content (mt_model t),
                               scaler_pkl := Content (dp_scaler pr),
                               metrics_json := Truncated\<rparr>),
          fs(dir := (fs dir)\<lparr>linear_regression_model_pkl := Content (mt_model t),
                               scaler_pkl := Content (dp_scaler pr),
                               metrics_json := Content (mt_metrics t)\<rparr>),
          fs(dir := (fs dir)\<lparr>linear_regression_model_pkl := Content (mt_model t),
                               scaler_pkl := Content (dp_scaler pr),
                               metrics_json := Content (mt_metrics t),
                               features_json := Truncated\<rparr>),
          fs(dir := \<lparr>linear_regression_model_pkl = Content (mt_model t),
                      scaler_pkl = Content (dp_scaler pr),
                      metrics_json = Content (mt_metrics t),
                      features_json = Content names\<rparr>)],
         Inr (path_join dir ''linear_regression_model.pkl'', path_join dir ''scaler.pkl'',
              path_join dir ''metrics.json'', path_join dir ''features.json''))
      \<and> save_model t dir fs =
        (fs(dir := \<lparr>linear_regression_model_pkl = Content (mt_model t),
                    scaler_pkl = Content (dp_scaler pr),
                    metrics_json = Content (mt_metrics t),
                    features_json = Content names\<rparr>),
         Inr (path_join dir ''linear_regression_model.pkl'', path_join dir ''scaler.pkl'',
              path_join dir ''metrics.json'', path_join dir ''features.json'')))
   \<and> (dir \<noteq> [] \<and> processor t = None \<longrightarrow>
      save_model t dir fs =
        (fs(dir := (fs dir)\<lparr>linear_regression_model_pkl := Content (mt_model t),
                             scaler_pkl := Truncated\<rparr>),
         Inl AttributeError))
   \<and> (dir \<noteq> [] \<and> processor t = Some pr \<and> get_feature_names pr = Inl e \<longrightarrow>
      save_model t dir fs =
        (fs(dir := (fs dir)\<lparr>linear_regression_model_pkl := Content (mt_model t),
                             scaler_pkl := Content (dp_scaler pr),
                             metrics_json := Content (mt_metrics t)\<rparr>),
         Inl e))
   \<and> (\<forall>s\<in>set (fst (save_model_trace t dir fs)). \<forall>d. d \<noteq> dir \<longrightarrow> s d = fs d)"
proof (intro conjI impI ballI allI)
  assume "dir = []"
  then show "save_model_trace t dir fs = ([], Inl (FileNotFoundError []))"
    and "save_model t dir fs = (fs, Inl (FileNotFoundError []))"
    by (simp_all add: save_model_def save_model_trace_def)
next
  assume a: "dir \<noteq> [] \<and> processor t = Some pr \<and> get_feature_names pr = Inr names"
  then have tr: "save_model_trace t dir fs =
        ([fs(dir := (fs dir)\<lparr>linear_regression_model_pkl := Truncated\<rparr>),
          fs(dir := (fs dir)\<lparr>linear_regression_model_pkl := Content (mt_model t)\<rparr>),
          fs(dir := (fs dir)\<lparr>linear_regression_model_pkl := Content (mt_model t),
                               scaler_pkl := Truncated\<rparr>),
          fs(dir := (fs dir)\<lparr>linear_regression_model_pkl := Content (mt_model t),
                               scaler_pkl := Content (dp_scaler pr)\<rparr>),
          fs(dir := (fs dir)\<lparr>linear_regression_model_pkl := Content (mt_model t),
                               scaler_pkl := Content (dp_scaler pr),
                               metrics_json := Truncated\<rparr>),
          fs(dir := (fs dir)\<lparr>linear_regression_model_pkl := Content (mt_model t),
                               scaler_pkl := Content (dp_scaler pr),
                               metrics_json := Content (mt_metrics t)\<rparr>),
          fs(dir := (fs dir)\<lparr>linear_regression_model_pkl := Content (mt_model t),
                               scaler_pkl := Content (dp_scaler pr),
                               metrics_json := Content (mt_metrics t),
                               features_json := Truncated\<rparr>),
          fs(dir := \<lparr>linear_regression_model_pkl = Content (mt_model t),
                      scaler_pkl = Content (dp_scaler pr),
                      metrics_json = Content (mt_metrics t),
                      features_json = Content names\<rparr>)],
         Inr (path_join dir ''linear_regression_model.pkl'', path_join dir ''scaler.pkl'',
              path_join dir ''metrics.json'', path_join dir ''features.json''))"
    by (intro save_model_trace_success) simp_all
  then show "save_model_trace t dir fs =
        ([fs(dir := (fs dir)\<lparr>linear_regression_model_pkl := Truncated\<rparr>),
          fs(dir := (fs dir)\<lparr>linear_regression_model_pkl := Content (mt_model t)\<rparr>),
          fs(dir := (fs dir)\<lparr>linear_regression_model_pkl := Content (mt_model t),
                               scaler_pkl := Truncated\<rparr>),
          fs(dir := (fs dir)\<lparr>linear_regression_model_pkl := Content (mt_model t),
                               scaler_pkl := Content (dp_scaler pr)\<rparr>),
          fs(dir := (fs dir)\<lparr>linear_regression_model_pkl := Content (mt_model t),
                               scaler_pkl := Content (dp_scaler pr),
                               metrics_json := Truncated\<rparr>),
          fs(dir := (fs dir)\<lparr>linear_regression_model_pkl := Content (mt_model t),
                               scaler_pkl := Content (dp_scaler pr),
                               metrics_json := Content (mt_metrics t)\<rparr>),
          fs(dir := (fs dir)\<lparr>linear_regression_model_pkl := Content (mt_model t),
                               scaler_pkl := Content (dp_scaler pr),
                               metrics_json := Content (mt_metrics t),
                               features_json := Truncated\<rparr>),
          fs(dir := \<lparr>linear_regression_model_pkl = Content (mt_model t),
                      scaler_pkl = Content (dp_scaler pr),
                      metrics_json = Content (mt_metrics t),
                      features_json = Content names\<rparr>)],
         Inr (path_join dir ''linear_regression_model.pkl'', path_join dir ''scaler.pkl'',
              path_join dir ''metrics.json'', path_join dir ''features.json''))" .
  show "save_model t dir fs =
        (fs(dir := \<lparr>linear_regression_model_pkl = Content (mt_model t),
                    scaler_pkl = Content (dp_scaler pr),
                    metrics_json = Content (mt_metrics t),
                    features_json = Content names\<rparr>),
         Inr (path_join dir ''linear_regression_model.pkl'', path_join dir ''scaler.pkl'',
              path_join dir ''metrics.json'', path_join dir ''features.json''))"
    by (simp add: save_model_def tr)
next
  assume "dir \<noteq> [] \<and> processor t = None"
  then show "save_model t dir fs =
        (fs(dir := (fs dir)\<lparr>linear_regression_model_pkl := Content (mt_model t),
                             scaler_pkl := Truncated\<rparr>),
         Inl AttributeError)"
    by (simp add: save_model_def save_model_trace_no_processor)
next
  assume "dir \<noteq> [] \<and> processor t = Some pr \<and> get_feature_names pr = Inl e"
  then show "save_model t dir fs =
        (fs(dir := (fs dir)\<lparr>linear_regression_model_pkl := Content (mt_model t),
                             scaler_pkl := Content (dp_scaler pr),
                             metrics_json := Content (mt_metrics t)\<rparr>),
         Inl e)"
    by (intro save_model_trace_no_names) simp_all
next
  fix s d
  assume "s \<in> set (fst (save_model_trace t dir fs))" "d \<noteq> dir"
  then show "s d = fs d" by (rule save_model_trace_elsewhere)
qed

theorem save_model_in_place_witness:
  "save_model pipeline_trainer ''models'' example_fs =
     (example_fs(''models'' :=
        \<lparr>linear_regression_model_pkl = Content (Some (FittedModel [7, 7] 0)),
         scaler_pkl = Content (FittedScaler [10, 5 / 2] [2, 1]),
         metrics_json = Content (Some later_metrics),
         features_json = Content [''square_feet'', ''num_bedrooms'']\<rparr>),
      Inr (''models/linear_regression_model.pkl'', ''models/scaler.pkl'',
           ''models/metrics.json'', ''models/features.json''))
   \<and> fst (save_model_trace pipeline_trainer ''models'' example_fs) ! 1 =
       example_fs(''models'' := example_dir
         \<lparr>linear_regression_model_pkl := Content (Some (FittedModel [7, 7] 0))\<rparr>)
   \<and> save_model pipeline_trainer [] example_fs = (example_fs, Inl (FileNotFoundError []))"
proof -
  have "''models'' \<noteq> [] \<and> processor pipeline_trainer = Some example_processor
      \<and> get_feature_names example_processor = Inr [''square_feet'', ''num_bedrooms'']"
    by (simp add: pipeline_trainer_def example_processor_def get_feature_names_def drop_column_def)
  with save_model_in_place
    [where t = pipeline_trainer and pr = example_processor
       and names = "[''square_feet'', ''num_bedrooms'']" and dir = "''models''" and fs = example_fs]
  have "save_model pipeline_trainer ''models'' example_fs =
     (example_fs(''models'' :=
        \<lparr>linear_regression_model_pkl = Content (Some (FittedModel [7, 7] 0)),
         scaler_pkl = Content (FittedScaler [10, 5 / 2] [2, 1]),
         metrics_json = Content (Some later_metrics),
         features_json = Content [''square_feet'', ''num_bedrooms'']\<rparr>),
      Inr (''models/linear_regression_model.pkl'', ''models/scaler.pkl'',
           ''models/metrics.json'', ''models/features.json''))
   \<and> fst (save_model_trace pipeline_trainer ''models'' example_fs) ! 1 =
       example_fs(''models'' := example_dir
         \<lparr>linear_regression_model_pkl := Content (Some (FittedModel [7, 7] 0))\<rparr>)"
    by (simp add: pipeline_trainer_def example_processor_def path_join_def example_fs_def)
  moreover from save_model_in_place [where t = pipeline_trainer and dir = "[]" and fs = example_fs]
  have "save_model pipeline_trainer [] example_fs = (example_fs, Inl (FileNotFoundError []))"
    by simp
  ultimately show ?thesis by simp
qed

section \<open>Fitting the model\<close>

text \<open>Normal equations are solvable: induction on the number of columns.\<close>

lemma normal_equations_solvable:
  fixes a :: "nat \<Rightarrow> nat \<Rightarrow> real"
  shows "\<exists>x. \<forall>j<k. (\<Sum>i<n. ((\<Sum>l<k. a i l * x l) - b i) * a i j) = 0"
proof (induction k arbitrary: b)
  case 0
  then show ?case by simp
next
  case (Suc k)
  from Suc [of b] obtain x' where x':
    "\<forall>j<k. (\<Sum>i<n. ((\<Sum>l<k. a i l * x' l) - b i) * a i j) = 0" by blast
  from Suc [of "\<lambda>i. a i k"] obtain y where y:
    "\<forall>j<k. (\<Sum>i<n. ((\<Sum>l<k. a i l * y l) - a i k) * a i j) = 0" by blast
  define rb where "rb i = b i - (\<Sum>l<k. a i l * x' l)" for i
  define a' where "a' i = a i k - (\<Sum>l<k. a i l * y l)" for i
  have rb0: "(\<Sum>i<n. rb i * a i j) = 0" if "j < k" for j
  proof -
    have "(\<Sum>i<n. rb i * a i j) = - (\<Sum>i<n. ((\<Sum>l<k. a i l * x' l) - b i) * a i j)"
      by (simp add: rb_def sum_negf [symmetric] algebra_simps)
    with x' that show ?thesis by simp
  qed
  have a0: "(\<Sum>i<n. a' i * a i j) = 0" if "j < k" for j
  proof -
    have "(\<Sum>i<n. a' i * a i j) = - (\<Sum>i<n. ((\<Sum>l<k. a i l * y l) - a i k) * a i j)"
      by (simp add: a'_def sum_negf [symmetric] algebra_simps)
    with y that show ?thesis by simp
  qed
  define s where "s = (\<Sum>i<n. a' i * a' i)"
  define c where "c = (if s = 0 then 0 else (\<Sum>i<n. rb i * a' i) / s)"
  define x where "x j = (if j = k then c else x' j - c * y j)" for j
  have P: "(\<Sum>l<Suc k. a i l * x l) - b i = c * a' i - rb i" for i
  proof -
    have "(\<Sum>l<k. a i l * x l) = (\<Sum>l<k. a i l * (x' l - c * y l))"
      by (rule sum.cong) (auto simp: x_def)
    also have "\<dots> = (\<Sum>l<k. a i l * x' l) - c * (\<Sum>l<k. a i l * y l)"
      by (simp add: sum_subtractf sum_distrib_left algebra_simps)
    finally show ?thesis
      by (simp add: x_def rb_def a'_def algebra_simps)
  qed
  have low: "(\<Sum>i<n. (c * a' i - rb i) * a i j) = 0" if "j < k" for j
  proof -
    have "(\<Sum>i<n. (c * a' i - rb i) * a i j) = c * (\<Sum>i<n. a' i * a i j) - (\<Sum>i<n. rb i * a i j)"
      by (simp add: sum_subtractf sum_distrib_left algebra_simps)
    with a0 [OF that] rb0 [OF that] show ?thesis by simp
  qed
  have cs: "c * s = (\<Sum>i<n. rb i * a' i)"
  proof (cases "s = 0")
    case True
    then have "\<forall>i\<in>{..<n}. a' i * a' i = 0"
      unfolding s_def by (subst (asm) sum_nonneg_eq_0_iff) auto
    then have "(\<Sum>i<n. rb i * a' i) = 0" by (intro sum.neutral) auto
    with True show ?thesis by simp
  next
    case False
    then show ?thesis by (simp add: c_def)
  qed
  have top: "(\<Sum>i<n. (c * a' i - rb i) * a i k) = 0"
  proof -
    have "a i k = a' i + (\<Sum>l<k. a i l * y l)" for i by (simp add: a'_def)
    then have "(\<Sum>i<n. (c * a' i - rb i) * a i k)
        = (\<Sum>i<n. (c * a' i - rb i) * a' i) + (\<Sum>i<n. (c * a' i - rb i) * (\<Sum>l<k. a i l * y l))"
      by (simp add: sum.distrib [symmetric] distrib_left)
    also have "(\<Sum>i<n. (c * a' i - rb i) * a' i) = c * s - (\<Sum>i<n. rb i * a' i)"
      by (simp add: s_def sum_subtractf sum_distrib_left algebra_simps)
    also have "(\<Sum>i<n. (c * a' i - rb i) * (\<Sum>l<k. a i l * y l))
        = (\<Sum>l<k. y l * (\<Sum>i<n. (c * a' i - rb i) * a i l))"
    proof -
      have "(\<Sum>i<n. (c * a' i - rb i) * (\<Sum>l<k. a i l * y l))
          = (\<Sum>i<n. \<Sum>l<k. y l * ((c * a' i - rb i) * a i l))"
        by (simp add: sum_distrib_left algebra_simps)
      also have "\<dots> = (\<Sum>l<k. \<Sum>i<n. y l * ((c * a' i - rb i) * a i l))"
        by (rule sum.swap)
      finally show ?thesis by (simp add: sum_distrib_left)
    qed
    also have "\<dots> = 0" by (intro sum.neutral) (simp add: low)
    finally show ?thesis by (simp add: cs)
  qed
  have "\<forall>j<Suc k. (\<Sum>i<n. ((\<Sum>l<Suc k. a i l * x l) - b i) * a i j) = 0"
  proof (intro allI impI)
    fix j assume "j < Suc k"
    then consider "j < k" | "j = k" by linarith
    then show "(\<Sum>i<n. ((\<Sum>l<Suc k. a i l * x l) - b i) * a i j) = 0"
      by cases (simp_all only: P low top)
  qed
  then show ?case by blast
qed


text \<open>A solution of the normal equations splits every squared residual.\<close>

lemma residual_split:
  fixes a :: "nat \<Rightarrow> nat \<Rightarrow> real"
  assumes ne: "\<forall>j<k. (\<Sum>i<n. ((\<Sum>l<k. a i l * x l) - b i) * a i j) = 0"
  shows "(\<Sum>i<n. ((\<Sum>l<k. a i l * z l) - b i) ^ 2)
       = (\<Sum>i<n. ((\<Sum>l<k. a i l * x l) - b i) ^ 2)
         + (\<Sum>i<n. ((\<Sum>l<k. a i l * z l) - (\<Sum>l<k. a i l * x l)) ^ 2)"
proof -
  define r where "r i = (\<Sum>l<k. a i l * x l) - b i" for i
  define d where "d i = (\<Sum>l<k. a i l * z l) - (\<Sum>l<k. a i l * x l)" for i
  have d: "d i = (\<Sum>l<k. a i l * (z l - x l))" for i
    by (simp add: d_def sum_subtractf algebra_simps)
  have cross: "(\<Sum>i<n. r i * d i) = 0"
  proof -
    have "(\<Sum>i<n. r i * d i) = (\<Sum>i<n. \<Sum>l<k. (z l - x l) * (r i * a i l))"
      by (simp add: d sum_distrib_left algebra_simps)
    also have "\<dots> = (\<Sum>l<k. \<Sum>i<n. (z l - x l) * (r i * a i l))"
      by (rule sum.swap)
    also have "\<dots> = (\<Sum>l<k. (z l - x l) * (\<Sum>i<n. r i * a i l))"
      by (simp add: sum_distrib_left)
    also have "\<dots> = 0"
      using ne by (intro sum.neutral) (simp add: r_def)
    finally show ?thesis .
  qed
  have "(\<Sum>l<k. a i l * z l) - b i = r i + d i" for i
    by (simp add: r_def d_def)
  then have "(\<Sum>i<n. ((\<Sum>l<k. a i l * z l) - b i) ^ 2) = (\<Sum>i<n. (r i + d i) ^ 2)"
    by simp
  also have "\<dots> = (\<Sum>i<n. r i ^ 2) + 2 * (\<Sum>i<n. r i * d i) + (\<Sum>i<n. d i ^ 2)"
    by (simp add: power2_sum sum.distrib sum_distrib_left algebra_simps)
  also have "\<dots> = (\<Sum>i<n. r i ^ 2) + (\<Sum>i<n. d i ^ 2)"
    using cross by simp
  finally show ?thesis by (simp only: r_def d_def)
qed

text \<open>Least squares solutions exist, and one of them has the least norm.\<close>

lemma min_norm_least_squares_exists:
  fixes a :: "nat \<Rightarrow> nat \<Rightarrow> real" and b :: "nat \<Rightarrow> real" and n k :: nat
  defines "Q \<equiv> \<lambda>z. (\<Sum>i<n. ((\<Sum>l<k. a i l * z l) - b i) ^ 2)"
  shows "\<exists>x. (\<forall>z. Q x \<le> Q z)
           \<and> (\<forall>z. (\<forall>w. Q z \<le> Q w) \<longrightarrow>
                  (\<Sum>j<k. z j ^ 2) = (\<Sum>j<k. x j ^ 2) + (\<Sum>j<k. (z j - x j) ^ 2))"
proof -
  from normal_equations_solvable [where k = k and n = n and a = a and b = b] obtain x0 where x0:
    "\<forall>j<k. (\<Sum>i<n. ((\<Sum>l<k. a i l * x0 l) - b i) * a i j) = 0" by blast
  from normal_equations_solvable [where k = n and n = k and a = "\<lambda>j i. a i j" and b = x0] obtain u where u:
    "\<forall>i<n. (\<Sum>j<k. ((\<Sum>l<n. a l j * u l) - x0 j) * a i j) = 0" by blast
  define x where "x j = (\<Sum>l<n. a l j * u l)" for j
  have same: "(\<Sum>l<k. a i l * x l) = (\<Sum>l<k. a i l * x0 l)" if "i < n" for i
  proof -
    from u that have "(\<Sum>j<k. (x j - x0 j) * a i j) = 0" by (simp add: x_def)
    then have "(\<Sum>j<k. a i j * x j) - (\<Sum>j<k. a i j * x0 j) = 0"
      by (simp add: sum_subtractf algebra_simps)
    then show ?thesis by simp
  qed
  have ne: "\<forall>j<k. (\<Sum>i<n. ((\<Sum>l<k. a i l * x l) - b i) * a i j) = 0"
  proof (intro allI impI)
    fix j assume "j < k"
    have "(\<Sum>i<n. ((\<Sum>l<k. a i l * x l) - b i) * a i j)
        = (\<Sum>i<n. ((\<Sum>l<k. a i l * x0 l) - b i) * a i j)"
      by (rule sum.cong) (simp_all add: same)
    with x0 \<open>j < k\<close> show "(\<Sum>i<n. ((\<Sum>l<k. a i l * x l) - b i) * a i j) = 0" by simp
  qed
  have split: "Q z = Q x + (\<Sum>i<n. ((\<Sum>l<k. a i l * z l) - (\<Sum>l<k. a i l * x l)) ^ 2)" for z
    unfolding Q_def by (rule residual_split [OF ne])
  have least: "Q x \<le> Q z" for z
    unfolding split [of z] by (simp add: sum_nonneg)
  have norm: "(\<Sum>j<k. z j ^ 2) = (\<Sum>j<k. x j ^ 2) + (\<Sum>j<k. (z j - x j) ^ 2)"
    if z: "\<forall>w. Q z \<le> Q w" for z
  proof -
    from z have "Q z \<le> Q x" by blast
    with split [of z]
    have "(\<Sum>i<n. ((\<Sum>l<k. a i l * z l) - (\<Sum>l<k. a i l * x l)) ^ 2) \<le> 0" by simp
    then have "(\<Sum>i<n. ((\<Sum>l<k. a i l * z l) - (\<Sum>l<k. a i l * x l)) ^ 2) = 0"
      by (intro antisym sum_nonneg) auto
    then have "\<forall>i\<in>{..<n}. ((\<Sum>l<k. a i l * z l) - (\<Sum>l<k. a i l * x l)) ^ 2 = 0"
      by (subst (asm) sum_nonneg_eq_0_iff) auto
    then have eq0: "(\<Sum>l<k. a i l * (z l - x l)) = 0" if "i < n" for i
      using that by (simp add: sum_subtractf algebra_simps)
    define w where "w j = z j - x j" for j
    have eq: "(\<Sum>l<k. a i l * w l) = 0" if "i < n" for i
      using eq0 [OF that] by (simp add: w_def)
    have "(\<Sum>j<k. x j * w j) = 0"
    proof -
      have "x j * w j = (\<Sum>l<n. u l * (a l j * w j))" for j
        unfolding x_def sum_distrib_right by (rule sum.cong) (simp_all add: mult_ac)
      then have "(\<Sum>j<k. x j * w j) = (\<Sum>j<k. \<Sum>l<n. u l * (a l j * w j))"
        by simp
      also have "\<dots> = (\<Sum>l<n. \<Sum>j<k. u l * (a l j * w j))"
        by (rule sum.swap)
      also have "\<dots> = (\<Sum>l<n. u l * (\<Sum>j<k. a l j * w j))"
        by (simp add: sum_distrib_left)
      also have "\<dots> = 0" by (intro sum.neutral) (simp add: eq)
      finally show ?thesis .
    qed
    then have cross: "(\<Sum>j<k. x j * w j) = 0" .
    have "z j = x j + w j" for j by (simp add: w_def)
    then have "(\<Sum>j<k. z j ^ 2) = (\<Sum>j<k. (x j + w j) ^ 2)" by simp
    also have "\<dots> = (\<Sum>j<k. x j ^ 2) + 2 * (\<Sum>j<k. x j * w j) + (\<Sum>j<k. w j ^ 2)"
      by (simp add: power2_sum sum.distrib sum_distrib_left algebra_simps)
    also have "\<dots> = (\<Sum>j<k. x j ^ 2) + (\<Sum>j<k. w j ^ 2)"
      using cross by simp
    finally show ?thesis by (simp add: w_def)
  qed
  from least norm show ?thesis by blast
qed


text \<open>The same for a matrix given by its rows.\<close>

lemma dot_sum:
  "length xs = length ys \<Longrightarrow> dot xs ys = (\<Sum>i<length xs. xs ! i * ys ! i)"
  by (simp add: dot_def sum_list_sum_nth atLeast0LessThan)

lemma sq_residual_sum:
  "length A = length b \<Longrightarrow>
   sq_residual A b x = (\<Sum>i<length A. (dot (A ! i) x - b ! i) ^ 2)"
  by (simp add: sq_residual_def sum_list_sum_nth atLeast0LessThan)

lemma sq_residual_rows:
  assumes "\<forall>row\<in>set A. length row = k" "length b = length A" "length x = k"
  shows "sq_residual A b x
       = (\<Sum>i<length A. ((\<Sum>l<k. A ! i ! l * x ! l) - b ! i) ^ 2)"
proof -
  have "dot (A ! i) x = (\<Sum>l<k. A ! i ! l * x ! l)" if "i < length A" for i
    using assms that by (simp add: dot_sum)
  then show ?thesis using assms by (simp add: sq_residual_sum)
qed

lemma min_norm_solution_exists:
  assumes ne: "A \<noteq> []" and rows: "\<forall>row\<in>set A. length row = length (hd A)"
    and len: "length b = length A"
  shows "\<exists>x. least_squares A b x
     \<and> (\<forall>z. least_squares A b z \<longrightarrow> dot z z = dot x x + (\<Sum>j<length (hd A). (z ! j - x ! j) ^ 2))"
proof -
  define k where "k = length (hd A)"
  define Q where "Q z = (\<Sum>i<length A. ((\<Sum>l<k. A ! i ! l * z l) - b ! i) ^ 2)" for z
  from rows have rows': "\<forall>row\<in>set A. length row = k" by (simp add: k_def)
  have sq: "sq_residual A b z = Q (\<lambda>l. z ! l)" if "length z = k" for z
    unfolding Q_def by (rule sq_residual_rows [OF rows' len that])
  have Qlist: "Q f = Q (\<lambda>l. map f [0..<k] ! l)" for f
    unfolding Q_def by simp
  from min_norm_least_squares_exists
    [where a = "\<lambda>i l. A ! i ! l" and b = "\<lambda>i. b ! i" and n = "length A" and k = k]
  obtain xf where least: "\<forall>z. Q xf \<le> Q z"
    and norm: "\<forall>z. (\<forall>w. Q z \<le> Q w) \<longrightarrow>
        (\<Sum>j<k. z j ^ 2) = (\<Sum>j<k. xf j ^ 2) + (\<Sum>j<k. (z j - xf j) ^ 2)"
    unfolding Q_def by blast
  define x where "x = map xf [0..<k]"
  have lx: "length x = k" by (simp add: x_def)
  have Qx: "sq_residual A b x = Q xf"
    using sq [OF lx] Qlist [of xf] by (simp add: x_def)
  have ls: "least_squares A b x"
    unfolding least_squares_def k_def [symmetric]
  proof (intro conjI allI impI)
    show "length x = k" by (rule lx)
    fix z :: "real list" assume "length z = k"
    then show "sq_residual A b x \<le> sq_residual A b z"
      using least by (simp add: Qx sq)
  qed
  have "dot z z = dot x x + (\<Sum>j<k. (z ! j - x ! j) ^ 2)" if z: "least_squares A b z" for z
  proof -
    from z have lz: "length z = k"
      and zmin: "\<forall>w. length w = k \<longrightarrow> sq_residual A b z \<le> sq_residual A b w"
      by (simp_all add: least_squares_def k_def)
    have "Q (\<lambda>l. z ! l) \<le> Q w" for w
    proof -
      have "sq_residual A b z \<le> sq_residual A b (map w [0..<k])"
        using zmin by simp
      then show ?thesis
        using sq [OF lz] sq [of "map w [0..<k]"] Qlist [of w] by simp
    qed
    with norm have "(\<Sum>j<k. (z ! j) ^ 2) = (\<Sum>j<k. xf j ^ 2) + (\<Sum>j<k. (z ! j - xf j) ^ 2)"
      by blast
    moreover have "dot z z = (\<Sum>j<k. (z ! j) ^ 2)"
      using lz by (simp add: dot_sum power2_eq_square)
    moreover have "dot x x = (\<Sum>j<k. xf j ^ 2)"
      using lx by (simp add: dot_sum power2_eq_square x_def)
    moreover have "(\<Sum>j<k. (z ! j - x ! j) ^ 2) = (\<Sum>j<k. (z ! j - xf j) ^ 2)"
      by (rule sum.cong) (simp_all add: x_def)
    ultimately show ?thesis by simp
  qed
  with ls show ?thesis unfolding k_def by blast
qed


text \<open>So \<open>lstsq\<close> returns a least-squares solution of least norm, the only one.\<close>

lemma lstsq_min_norm:
  assumes "A \<noteq> []" "\<forall>row\<in>set A. length row = length (hd A)" "length b = length A"
  shows "least_squares A b (lstsq A b)
     \<and> (\<forall>z. least_squares A b z \<longrightarrow> dot (lstsq A b) (lstsq A b) \<le> dot z z)"
proof -
  from min_norm_solution_exists [OF assms] obtain x where ls: "least_squares A b x"
    and id: "\<forall>z. least_squares A b z \<longrightarrow>
        dot z z = dot x x + (\<Sum>j<length (hd A). (z ! j - x ! j) ^ 2)"
    by blast
  have "dot x x \<le> dot z z" if "least_squares A b z" for z
  proof -
    have "0 \<le> (\<Sum>j<length (hd A). (z ! j - x ! j) ^ 2)" by (simp add: sum_nonneg)
    with id that show ?thesis by fastforce
  qed
  with ls have "least_squares A b x \<and> (\<forall>z. least_squares A b z \<longrightarrow> dot x x \<le> dot z z)"
    by blast
  then show ?thesis unfolding lstsq_def by (rule someI)
qed

lemma lstsq_unique:
  assumes "A \<noteq> []" "\<forall>row\<in>set A. length row = length (hd A)" "length b = length A"
    and ls: "least_squares A b y" and mn: "\<forall>z. least_squares A b z \<longrightarrow> dot y y \<le> dot z z"
  shows "lstsq A b = y"
proof -
  from min_norm_solution_exists [OF assms(1-3)] obtain x where lx: "least_squares A b x"
    and id: "\<forall>z. least_squares A b z \<longrightarrow>
        dot z z = dot x x + (\<Sum>j<length (hd A). (z ! j - x ! j) ^ 2)"
    by blast
  have eq: "z = x" if lz: "least_squares A b z"
    and mz: "\<forall>w. least_squares A b w \<longrightarrow> dot z z \<le> dot w w" for z
  proof -
    from mz lx have "dot z z \<le> dot x x" by blast
    moreover from id lz have "dot z z = dot x x + (\<Sum>j<length (hd A). (z ! j - x ! j) ^ 2)"
      by blast
    ultimately have "(\<Sum>j<length (hd A). (z ! j - x ! j) ^ 2) \<le> 0" by simp
    then have "(\<Sum>j<length (hd A). (z ! j - x ! j) ^ 2) = 0"
      by (intro antisym sum_nonneg) auto
    then have "\<forall>j\<in>{..<length (hd A)}. (z ! j - x ! j) ^ 2 = 0"
      by (subst (asm) sum_nonneg_eq_0_iff) auto
    then have "\<forall>j<length (hd A). z ! j = x ! j" by simp
    moreover from lz lx have "length z = length (hd A)" "length x = length (hd A)"
      by (simp_all add: least_squares_def)
    ultimately show ?thesis by (intro nth_equalityI) simp_all
  qed
  from lstsq_min_norm [OF assms(1-3)] have "lstsq A b = x" by (intro eq) blast+
  moreover from ls mn have "y = x" by (intro eq) blast+
  ultimately show ?thesis by simp
qed

lemma centred_shape:
  assumes "X \<noteq> []" "\<forall>row\<in>set X. length row = length (hd X) \<and> row \<noteq> []"
  shows "centre_rows X \<noteq> []"
    and "\<forall>row\<in>set (centre_rows X). length row = length (hd X)"
    and "length (hd (centre_rows X)) = length (hd X)"
    and "length (centre_rows X) = length X"
proof -
  have cm: "length (column_means X) = length (hd X)" by (simp add: column_means_def)
  show 1: "centre_rows X \<noteq> []" using assms(1) by (simp add: centre_rows_def)
  show 2: "\<forall>row\<in>set (centre_rows X). length row = length (hd X)"
    using assms(2) by (auto simp: centre_rows_def cm)
  from 1 have "hd (centre_rows X) \<in> set (centre_rows X)" by simp
  with 2 show "length (hd (centre_rows X)) = length (hd X)" by blast
  show "length (centre_rows X) = length X" by (simp add: centre_rows_def)
qed

lemma sq_residual_zero_row: "sq_residual [[0, 0]] [0] x = 0"
proof -
  have "dot [0, 0] x = 0"
    by (cases x; cases "tl x") (auto simp: dot_def)
  then show ?thesis by (simp add: sq_residual_def)
qed

lemma least_squares_zero_row: "least_squares [[0, 0]] [0] x \<longleftrightarrow> length x = 2"
  by (simp add: least_squares_def sq_residual_zero_row numeral_2_eq_2)

lemma length_two: "length x = 2 \<longleftrightarrow> (\<exists>a b. x = [a, b])"
  by (cases x; cases "tl x") auto

text \<open>The minimum-norm solution of the system one centred row leaves: all zeros.\<close>

lemma lstsq_zero_row: "lstsq [[0, 0]] [0] = [0, 0]"
  unfolding lstsq_def
proof (rule some_equality)
  show "least_squares [[0, 0]] [0] [0, 0]
      \<and> (\<forall>z. least_squares [[0, 0]] [0] z \<longrightarrow> dot [0, 0] [0, 0] \<le> dot z z)"
    by (auto simp: least_squares_zero_row length_two dot_def)
next
  fix x :: "real list"
  assume a: "least_squares [[0, 0]] [0] x
      \<and> (\<forall>z. least_squares [[0, 0]] [0] z \<longrightarrow> dot x x \<le> dot z z)"
  then obtain u v where x: "x = [u, v]" by (auto simp: least_squares_zero_row length_two)
  from a have "dot x x \<le> dot [0, 0] [0, 0]"
    by (simp add: least_squares_zero_row)
  then have "u * u + v * v \<le> 0" by (simp add: x dot_def)
  then have "u = 0 \<and> v = 0" by (simp add: sum_squares_le_zero_iff)
  then show "x = [0, 0]" by (simp add: x)
qed

lemma fit_one_row: "LinearRegression_fit [[1, 2]] [3] = Inr (FittedModel [0, 0] 3)"
  by (simp add: LinearRegression_fit_def check_array_def column_def mean_def Let_def
      column_means_def centre_rows_def centre_def lstsq_zero_row dot_def upt_rec)

text \<open>
  C8, as stated, fails: with one training row and two features, strictly more features
  than rows, \<open>train\<close> raises nothing and returns coefficients (the minimum-norm
  solution: zero coefficients and the target as intercept).
\<close>

theorem train_underdetermined_counterexample:
  "train new_trainer [[1, 2]] [3]
     = (new_trainer\<lparr>mt_model := Some (FittedModel [0, 0] 3)\<rparr>, Inr (FittedModel [0, 0] 3))"
  by (simp add: train_def fit_one_row)

text \<open>
  C8, amended. \<open>train\<close> with zero training rows raises ValueError and leaves an
  unfitted model. With at least one row, a rectangular array of at least one feature
  and one target per row, it returns a fitted model and stores it, however many
  features there are for the rows: its coefficients, one per feature, are a
  least-squares solution of the centred system, of least norm among all of them, and
  its intercept is the mean target minus the column means times the coefficients.
\<close>

theorem train_fails_only_on_bad_shape:
  "(X = [] \<longrightarrow> train t X y = (t\<lparr>mt_model := Some UnfittedModel\<rparr>, Inl ValueError))
   \<and> (X \<noteq> [] \<and> (\<forall>row\<in>set X. length row = length (hd X) \<and> row \<noteq> []) \<and> length y = length X \<longrightarrow>
        (\<exists>w. train t X y
               = (t\<lparr>mt_model := Some (FittedModel w (mean y - dot (column_means X) w))\<rparr>,
                  Inr (FittedModel w (mean y - dot (column_means X) w)))
           \<and> length w = length (hd X)
           \<and> least_squares (centre_rows X) (centre y) w
           \<and> (\<forall>z. least_squares (centre_rows X) (centre y) z \<longrightarrow> dot w w \<le> dot z z)))"
proof (intro conjI impI)
  assume "X = []"
  then show "train t X y = (t\<lparr>mt_model := Some UnfittedModel\<rparr>, Inl ValueError)"
    by (simp add: train_def LinearRegression_fit_def check_array_def)
next
  assume a: "X \<noteq> [] \<and> (\<forall>row\<in>set X. length row = length (hd X) \<and> row \<noteq> []) \<and> length y = length X"
  then have chk: "check_array (length (hd X)) X = Inr X"
    unfolding check_array_Inr_iff by blast
  from a have len: "length y = length X" by simp
  from a have ne: "X \<noteq> []" and rows: "\<forall>row\<in>set X. length row = length (hd X) \<and> row \<noteq> []"
    by blast+
  let ?w = "lstsq (centre_rows X) (centre y)"
  have tr: "train t X y
      = (t\<lparr>mt_model := Some (FittedModel ?w (mean y - dot (column_means X) ?w))\<rparr>,
         Inr (FittedModel ?w (mean y - dot (column_means X) ?w)))"
    by (simp add: train_def LinearRegression_fit_def Let_def chk len)
  have shape: "\<forall>row\<in>set (centre_rows X). length row = length (hd (centre_rows X))"
    using centred_shape(2,3) [OF ne rows] by simp
  have lenb: "length (centre y) = length (centre_rows X)"
    using centred_shape(4) [OF ne rows] len by (simp add: centre_def)
  from lstsq_min_norm [OF centred_shape(1) [OF ne rows] shape lenb]
  have ls: "least_squares (centre_rows X) (centre y) ?w"
    and mn: "\<forall>z. least_squares (centre_rows X) (centre y) z \<longrightarrow> dot ?w ?w \<le> dot z z"
    by blast+
  from ls have "length ?w = length (hd X)"
    using centred_shape(3) [OF ne rows] by (simp add: least_squares_def)
  with tr ls mn show "\<exists>w. train t X y
               = (t\<lparr>mt_model := Some (FittedModel w (mean y - dot (column_means X) w))\<rparr>,
                  Inr (FittedModel w (mean y - dot (column_means X) w)))
           \<and> length w = length (hd X)
           \<and> least_squares (centre_rows X) (centre y) w
           \<and> (\<forall>z. least_squares (centre_rows X) (centre y) z \<longrightarrow> dot w w \<le> dot z z)"
    by blast
qed


theorem train_fails_only_on_bad_shape_witness:
  "train new_trainer [] [] = (new_trainer\<lparr>mt_model := Some UnfittedModel\<rparr>, Inl ValueError)
   \<and> (\<exists>w. train new_trainer [[1, 2, 3], [4, 5, 6]] [7, 8]
            = (new_trainer\<lparr>mt_model := Some (FittedModel w
                 (mean [7, 8] - dot (column_means [[1, 2, 3], [4, 5, 6]]) w))\<rparr>,
               Inr (FittedModel w (mean [7, 8] - dot (column_means [[1, 2, 3], [4, 5, 6]]) w)))
        \<and> length w = 3
        \<and> least_squares (centre_rows [[1, 2, 3], [4, 5, 6]]) (centre [7, 8]) w
        \<and> (\<forall>z. least_squares (centre_rows [[1, 2, 3], [4, 5, 6]]) (centre [7, 8]) z
              \<longrightarrow> dot w w \<le> dot z z))"
  using train_fails_only_on_bad_shape [where X = "[]" and t = new_trainer and y = "[]"]
    train_fails_only_on_bad_shape
      [where X = "[[1, 2, 3], [4, 5, 6]]" and y = "[7, 8]" and t = new_trainer]
  by (simp add: numeral_3_eq_3)

section \<open>Scaling and splitting\<close>

text \<open>
  C5. The scaler \<open>scale_features\<close> leaves in the processor is determined by the
  training split alone: two processors with the same \<open>X_train\<close> end with the same
  scaler whatever their test splits hold, and when the fit succeeds that scaler is the
  fit of the training values.
\<close>

theorem scaler_depends_on_train_only:
  "(X_train p' = X_train p \<longrightarrow>
      dp_scaler (fst (scale_features p')) = dp_scaler (fst (scale_features p)))
   \<and> (table_matrix (X_train p) = Inr tr \<and> StandardScaler_fit tr = Inr sc \<longrightarrow>
      dp_scaler (fst (scale_features p)) = sc)"
  by (simp add: scale_features_def split: sum.splits)

lemma split_processor_scaler:
  "dp_scaler (fst (scale_features split_processor)) = FittedScaler [10, 3] [2, 1]"
  by (simp add: scale_features_def split_processor_def example_processor_def table_matrix_def
      table_values_def frame_values_def n_rows_def StandardScaler_fit_def check_array_def
      column_def mean_def var_def handle_zeros_in_scale_def scale_row_def upt_rec
      split: sum.splits)

theorem scaler_depends_on_train_only_witness:
  "dp_scaler (fst (scale_features
      (split_processor\<lparr>X_test := Some (Frame [(''square_feet'', [900]), (''num_bedrooms'', [70])])\<rparr>)))
   = FittedScaler [10, 3] [2, 1]"
  using scaler_depends_on_train_only
    [where p = split_processor
       and p' = "split_processor\<lparr>X_test := Some (Frame [(''square_feet'', [900]), (''num_bedrooms'', [70])])\<rparr>"]
    split_processor_scaler
  by simp

text \<open>
  C6. The outcome of the split is a function of the frame, the test size and the seed
  (numpy's permutation for a seed being a function of the seed): processors with the
  same frame get the same partitions, element for element, or the same error; the
  split leaves the frame as it was, so a second call on the same processor with the
  same seed returns what the first returned.
\<close>

theorem split_deterministic:
  "(df p' = df p \<longrightarrow>
      snd (prepare_train_test_split permutation p' test_size random_state)
        = snd (prepare_train_test_split permutation p test_size random_state))
   \<and> df (fst (prepare_train_test_split permutation p test_size random_state)) = df p
   \<and> snd (prepare_train_test_split permutation
             (fst (prepare_train_test_split permutation p test_size random_state))
             test_size random_state)
        = snd (prepare_train_test_split permutation p test_size random_state)"
  by (auto simp: prepare_train_test_split_def split: option.splits sum.splits prod.splits)

lemma example_split:
  "snd (prepare_train_test_split example_permutation example_processor (1 / 4) 42)
     = Inr ([(''square_feet'', [8, 12, 14]), (''num_bedrooms'', [2, 3, 4])],
            [(''square_feet'', [6]), (''num_bedrooms'', [1])],
            [94, 108, 116], [83])"
  by (simp add: prepare_train_test_split_def example_processor_def drop_column_def
      train_test_split_def example_permutation_def iloc_def take_items_def Let_def upt_rec)

theorem split_deterministic_witness:
  "snd (prepare_train_test_split example_permutation
          (fst (prepare_train_test_split example_permutation example_processor (1 / 4) 42))
          (1 / 4) 42)
     = Inr ([(''square_feet'', [8, 12, 14]), (''num_bedrooms'', [2, 3, 4])],
            [(''square_feet'', [6]), (''num_bedrooms'', [1])],
            [94, 108, 116], [83])"
  using split_deterministic
    [where p = example_processor and permutation = example_permutation
       and test_size = "1 / 4" and random_state = 42
       and p' = "fst (prepare_train_test_split example_permutation example_processor (1 / 4) 42)"]
    example_split
  by simp

section \<open>Outlier removal\<close>

lemma sample_std_nonneg: "0 \<le> sample_std xs"
  unfolding sample_std_def
  by (intro real_sqrt_ge_zero divide_nonneg_nonneg sum_list_nonneg) auto

lemma z_scores_z_score: "z_scores xs = map (z_score xs) xs"
proof (cases "length xs < 2")
  case True
  then show ?thesis
    by (cases xs) (auto simp: z_scores_def series_mean_def series_std_def z_score_def)
next
  case False
  then have ne: "xs \<noteq> []" by auto
  have std: "series_std xs = Some (sample_std xs)"
    using False by (simp add: series_std_def sample_std_def)
  have "\<bar>(x - mean xs) / sample_std xs\<bar> = \<bar>x - mean xs\<bar> / sample_std xs" for x
    using sample_std_nonneg [of xs] by (simp add: abs_divide)
  then show ?thesis
    using False ne by (simp add: z_scores_def series_mean_def std z_score_def)
qed

lemma mask_keeps: "map (less_than t) (z_scores xs) = map (keeps t xs) xs"
  by (simp add: z_scores_z_score less_than_def keeps_def)

lemma filter_zip_map:
  "map snd (filter fst (zip (map f rows) (map g rows))) = map g (filter f rows)"
  by (induction rows) auto

lemma boolean_index_rows_at:
  "boolean_index (map f rows) (rows_at rows d) = rows_at (filter f rows) d"
  by (induction d) (auto simp: boolean_index_def rows_at_def filter_zip_map)

lemma map_of_rows_at:
  "map_of (rows_at rows d) c = map_option (\<lambda>col. map (\<lambda>i. col ! i) rows) (map_of d c)"
  by (induction d) (auto simp: rows_at_def)

lemma outlier_loop_rows:
  assumes "\<forall>(name, col)\<in>set cols. map_of d name = Some col"
  shows "outlier_loop t (map fst cols) (rows_at rows d)
     = (rows_at (surviving_rows t cols rows) d, None)"
  using assms
proof (induction cols arbitrary: rows)
  case Nil
  then show ?case by simp
next
  case (Cons c cols)
  obtain name col where c: "c = (name, col)" by (cases c)
  from Cons.prems c have look: "map_of d name = Some col" by simp
  from Cons.prems have rest: "\<forall>(name, col)\<in>set cols. map_of d name = Some col" by simp
  let ?xs = "map (\<lambda>j. col ! j) rows"
  have m: "map (less_than t) (z_scores ?xs) = map (\<lambda>i. keeps t ?xs (col ! i)) rows"
    by (simp add: mask_keeps)
  have "outlier_loop t (map fst (c # cols)) (rows_at rows d)
      = outlier_loop t (map fst cols)
          (boolean_index (map (less_than t) (z_scores ?xs)) (rows_at rows d))"
    by (simp add: c map_of_rows_at look)
  also have "\<dots> = outlier_loop t (map fst cols)
      (rows_at (filter (\<lambda>i. keeps t ?xs (col ! i)) rows) d)"
    by (simp only: m boolean_index_rows_at)
  also have "\<dots> = (rows_at (surviving_rows t cols (filter (\<lambda>i. keeps t ?xs (col ! i)) rows)) d, None)"
    by (rule Cons.IH [OF rest])
  finally show ?case by (simp add: c)
qed

lemma rows_at_all:
  assumes "DataFrame d = Inr d"
  shows "rows_at [0..<n_rows d] d = d"
proof -
  from assms have len: "\<forall>(k, col)\<in>set d. length col = n_rows d"
    by (auto simp: DataFrame_def list_all_iff split: if_splits)
  have "map (\<lambda>(k, col). (k, map (\<lambda>i. col ! i) [0..<n_rows d])) d = map (\<lambda>kc. kc) d"
  proof (rule map_cong [OF refl])
    fix kc assume "kc \<in> set d"
    with len have "length (snd kc) = n_rows d" by auto
    then have "map (\<lambda>i. snd kc ! i) [0..<n_rows d] = snd kc"
      by (metis map_nth)
    then show "(case kc of (k, col) \<Rightarrow> (k, map (\<lambda>i. col ! i) [0..<n_rows d])) = kc"
      by (cases kc) simp
  qed
  then show ?thesis by (simp add: rows_at_def)
qed

lemma remove_outliers_rows:
  assumes "df p = Some d" "DataFrame d = Inr d" "distinct (map fst d)"
  shows "remove_outliers p None t
     = (p\<lparr>df := Some (rows_at (surviving_rows t d [0..<n_rows d]) d)\<rparr>,
        Inr (rows_at (surviving_rows t d [0..<n_rows d]) d))"
proof -
  from assms(3) have "\<forall>(name, col)\<in>set d. map_of d name = Some col"
    by auto
  from outlier_loop_rows [OF this, of t "[0..<n_rows d]"]
  have "outlier_loop t (map fst d) d = (rows_at (surviving_rows t d [0..<n_rows d]) d, None)"
    by (simp add: rows_at_all [OF assms(2)])
  then show ?thesis by (simp add: remove_outliers_def assms(1))
qed


lemma sqrt_36: "sqrt 36 = 6"
  by (rule real_sqrt_unique) simp_all

lemma sqrt_49: "sqrt 49 = 7"
  by (rule real_sqrt_unique) simp_all

lemma z_scores_square_feet:
  "z_scores [2, 0, 0, 0] = [Some (3 / 2), Some (1 / 2), Some (1 / 2), Some (1 / 2)]"
  by (simp add: z_scores_def series_mean_def series_std_def mean_def power2_eq_square)

lemma z_scores_price_left:
  "z_scores [11, 13, 0] = [Some (3 / 7), Some (5 / 7), Some (8 / 7)]"
  by (simp add: z_scores_def series_mean_def series_std_def mean_def power2_eq_square sqrt_49)

lemma z_scores_price_three:
  "z_scores [20, 26, 14] = [Some 0, Some 1, Some 1]"
  by (simp add: z_scores_def series_mean_def series_std_def mean_def power2_eq_square sqrt_36)

lemma z_scores_price_four:
  "z_scores [30, 20, 26, 14] = [Some (15 / 14), Some (5 / 14), Some (1 / 2), Some (17 / 14)]"
  by (simp add: z_scores_def series_mean_def series_std_def mean_def power2_eq_square sqrt_49)

text \<open>
  C4, as stated, fails. On the first frame with threshold 3/2 the code drops the row
  whose z-score in \<open>square_feet\<close> equals the threshold, which a run that drops only
  z-scores exceeding it keeps, whether the schema is taken without or with the target.
  On the second frame with threshold 1 the code drops a row for its \<open>price\<close>, which is
  no schema column.
\<close>

theorem remove_outliers_schema_counterexample:
  "snd (remove_outliers boundary_processor None (3 / 2))
     = Inr [(''square_feet'', [0, 0, 0]), (''price'', [20, 26, 14])]
   \<and> remove_outliers_spec [''square_feet''] (3 / 2) boundary_frame
     = [(''square_feet'', [2, 0, 0, 0]), (''price'', [30, 20, 26, 14])]
   \<and> remove_outliers_spec [''square_feet'', ''price''] (3 / 2) boundary_frame
     = [(''square_feet'', [2, 0, 0, 0]), (''price'', [30, 20, 26, 14])]
   \<and> snd (remove_outliers outlier_processor None 1)
     = Inr [(''square_feet'', [0, 0]), (''price'', [11, 13])]
   \<and> remove_outliers_spec [''square_feet''] 1 outlier_frame
     = [(''square_feet'', [0, 0, 0]), (''price'', [11, 13, 0])]"
proof -
  have "snd (remove_outliers boundary_processor None (3 / 2))
     = Inr [(''square_feet'', [0, 0, 0]), (''price'', [20, 26, 14])]"
    by (simp add: remove_outliers_def boundary_processor_def boundary_frame_def
        z_scores_square_feet z_scores_price_three boolean_index_def less_than_def)
  moreover have "remove_outliers_spec [''square_feet''] (3 / 2) boundary_frame
     = [(''square_feet'', [2, 0, 0, 0]), (''price'', [30, 20, 26, 14])]"
    by (simp add: boundary_frame_def z_scores_square_feet boolean_index_def exceeds_def)
  moreover have "remove_outliers_spec [''square_feet'', ''price''] (3 / 2) boundary_frame
     = [(''square_feet'', [2, 0, 0, 0]), (''price'', [30, 20, 26, 14])]"
    by (simp add: boundary_frame_def z_scores_square_feet z_scores_price_four
        boolean_index_def exceeds_def)
  moreover have "snd (remove_outliers outlier_processor None 1)
     = Inr [(''square_feet'', [0, 0]), (''price'', [11, 13])]"
    by (simp add: remove_outliers_def outlier_processor_def outlier_frame_def
        z_scores_square_feet z_scores_price_left boolean_index_def less_than_def)
  moreover have "remove_outliers_spec [''square_feet''] 1 outlier_frame
     = [(''square_feet'', [0, 0, 0]), (''price'', [11, 13, 0])]"
    by (simp add: outlier_frame_def z_scores_square_feet boolean_index_def exceeds_def)
  ultimately show ?thesis by simp
qed

text \<open>
  C4, amended. On a frame of equally long, distinctly named columns,
  \<open>remove_outliers\<close> with its default columns never raises and processes every column
  of the frame, the target \<open>price\<close> included, cumulatively in frame order: for each
  column in turn it takes mean and sample deviation over the rows currently surviving
  and keeps exactly the rows whose z-score there is defined and strictly below the
  threshold; the result, also stored in \<open>df\<close>, is the frame of the surviving rows in
  their order.
\<close>

theorem remove_outliers_cumulative:
  "df p = Some d \<and> DataFrame d = Inr d \<and> distinct (map fst d) \<longrightarrow>
   remove_outliers p None t
     = (p\<lparr>df := Some (rows_at (surviving_rows t d [0..<n_rows d]) d)\<rparr>,
        Inr (rows_at (surviving_rows t d [0..<n_rows d]) d))"
  using remove_outliers_rows [of p d t] by blast

lemma keeps_by_z_scores: "map (keeps t xs) xs = map (less_than t) (z_scores xs)"
  by (simp add: mask_keeps)

lemma surviving_rows_outlier_frame: "surviving_rows 1 outlier_frame [0, 1, 2, 3] = [1, 2]"
proof -
  have a: "map (keeps 1 [2, 0, 0, 0]) [2, 0, 0, 0] = [False, True, True, True]"
    by (simp only: keeps_by_z_scores z_scores_square_feet) (simp add: less_than_def)
  have b: "map (keeps 1 [11, 13, 0]) [11, 13, 0] = [True, True, False]"
    by (simp only: keeps_by_z_scores z_scores_price_left) (simp add: less_than_def)
  from a b show ?thesis by (simp add: outlier_frame_def)
qed

theorem remove_outliers_cumulative_witness:
  "remove_outliers outlier_processor None 1
     = (outlier_processor\<lparr>df := Some [(''square_feet'', [0, 0]), (''price'', [11, 13])]\<rparr>,
        Inr [(''square_feet'', [0, 0]), (''price'', [11, 13])])"
proof -
  have "df outlier_processor = Some outlier_frame \<and> DataFrame outlier_frame = Inr outlier_frame
      \<and> distinct (map fst outlier_frame)"
    by (simp add: outlier_processor_def outlier_frame_def DataFrame_def n_rows_def)
  with remove_outliers_cumulative [of outlier_processor outlier_frame 1]
  have run: "remove_outliers outlier_processor None 1
     = (outlier_processor\<lparr>df := Some (rows_at (surviving_rows 1 outlier_frame [0..<n_rows outlier_frame]) outlier_frame)\<rparr>,
        Inr (rows_at (surviving_rows 1 outlier_frame [0..<n_rows outlier_frame]) outlier_frame))"
    by blast
  have idx: "[0..<n_rows outlier_frame] = [0, 1, 2, 3]"
    by (simp add: n_rows_def outlier_frame_def upt_rec)
  have rows: "rows_at [1, 2] outlier_frame = [(''square_feet'', [0, 0]), (''price'', [11, 13])]"
    by (simp add: rows_at_def outlier_frame_def)
  show ?thesis
    by (simp only: run idx surviving_rows_outlier_frame rows)
qed

end
